theory Spec2Isabelle
  imports Complex_Main
begin

section \<open>Python values used by the grocery data generator\<close>

text \<open>
  The generator (\<^verbatim>\<open>grocery_data_generator.py\<close>) draws every random decision from
  Python's \<^verbatim>\<open>random\<close> module. The module's generator is modelled by the finite
  prefix of raw draws it will hand out next (a list of naturals, one consumed per
  primitive call). A computation that needs a draw after the prefix is used up is
  \<open>Starved\<close>: the run was cut, nothing is said about it. An exception of the
  source is \<open>Raise\<close>. Python's floats are idealised as reals.
\<close>

datatype error = IndexError | ValueError | ZeroDivisionError | KeyError

datatype 'a run = Done 'a "nat list" | Raise error | Starved

type_synonym 'a rnd = "nat list \<Rightarrow> 'a run"

definition ret :: "'a \<Rightarrow> 'a rnd" where
  "ret x t = Done x t"

definition bnd :: "'a rnd \<Rightarrow> ('a \<Rightarrow> 'b rnd) \<Rightarrow> 'b rnd" where
  "bnd m f t = (case m t of Done x t' \<Rightarrow> f x t' | Raise e \<Rightarrow> Raise e | Starved \<Rightarrow> Starved)"

text \<open>\<^verbatim>\<open>random.random()\<close>: 53 random bits scaled into [0, 1).\<close>

fun random_random :: "real rnd" where
  "random_random [] = Starved"
| "random_random (k # t) = Done (real (k mod 2 ^ 53) / 2 ^ 53) t"

text \<open>\<^verbatim>\<open>random.randint(a, b)\<close>: an integer of [a, b], ValueError on an empty range.\<close>

fun random_randint :: "int \<Rightarrow> int \<Rightarrow> int rnd" where
  "random_randint a b [] = (if b < a then Raise ValueError else Starved)"
| "random_randint a b (k # t) =
     (if b < a then Raise ValueError else Done (a + int (k mod nat (b - a + 1))) t)"

text \<open>\<^verbatim>\<open>random.choice(seq)\<close>: IndexError on an empty sequence, before any draw.\<close>

fun random_choice :: "'a list \<Rightarrow> 'a rnd" where
  "random_choice seq [] = (if seq = [] then Raise IndexError else Starved)"
| "random_choice seq (k # t) =
     (if seq = [] then Raise IndexError else Done (seq ! (k mod length seq)) t)"

text \<open>\<^verbatim>\<open>random.uniform(a, b)\<close> is \<^verbatim>\<open>a + (b - a) * random()\<close>.\<close>

definition random_uniform :: "real \<Rightarrow> real \<Rightarrow> real rnd" where
  "random_uniform a b = bnd random_random (\<lambda>r. ret (a + (b - a) * r))"

text \<open>
  \<^verbatim>\<open>random.choices(population, weights=w)[0]\<close>: the cumulative weights are
  bisected (to the right, among the first n - 1 of them) at \<^verbatim>\<open>random() * total\<close>.
\<close>

fun accumulate :: "real \<Rightarrow> real list \<Rightarrow> real list" where
  "accumulate s [] = []"
| "accumulate s (w # ws) = (s + w) # accumulate (s + w) ws"

definition bisect :: "real list \<Rightarrow> real \<Rightarrow> nat \<Rightarrow> nat" where
  "bisect cum x hi = length (takeWhile (\<lambda>c. c \<le> x) (take hi cum))"

definition random_choices :: "'a list \<Rightarrow> real list \<Rightarrow> 'a rnd" where
  "random_choices population weights =
     (let cum_weights = accumulate 0 weights; n = length population in
      if length cum_weights \<noteq> n then (\<lambda>t. Raise ValueError)
      else if cum_weights = [] then (\<lambda>t. Raise IndexError)
      else if last cum_weights \<le> 0 then (\<lambda>t. Raise ValueError)
      else bnd random_random
             (\<lambda>r. ret (population ! bisect cum_weights (r * last cum_weights) (n - 1))))"

text \<open>
  \<^verbatim>\<open>str(uuid.uuid4())\<close>: an identifier is represented by its 128-bit value; two
  identifiers are equal exactly when the values are.
\<close>

fun uuid4 :: "nat rnd" where
  "uuid4 [] = Starved"
| "uuid4 (k # t) = Done (k mod 2 ^ 128) t"

text \<open>
  \<^verbatim>\<open>round(x, ndigits)\<close> on the idealised reals: the nearest multiple of
  \<open>10 ^ - ndigits\<close>, a tie going to the even one.
\<close>

definition py_round :: "real \<Rightarrow> nat \<Rightarrow> real" where
  "py_round x ndigits =
     (let y = x * 10 ^ ndigits; f = \<lfloor>y\<rfloor>; d = y - of_int f in
      of_int (if d < 1 / 2 then f else if 1 / 2 < d then f + 1
              else if even f then f else f + 1) / 10 ^ ndigits)"

text \<open>\<^verbatim>\<open>str(n)\<close> for a natural number, and \<^verbatim>\<open>s.zfill(width)\<close> for a digit string.\<close>

definition digit_char :: "nat \<Rightarrow> char" where
  "digit_char d = ''0123456789'' ! d"

fun str_nat :: "nat \<Rightarrow> string" where
  "str_nat n = (if n < 10 then [digit_char n] else str_nat (n div 10) @ [digit_char (n mod 10)])"

declare str_nat.simps [simp del]

definition zfill :: "string \<Rightarrow> nat \<Rightarrow> string" where
  "zfill s width = replicate (width - length s) CHR ''0'' @ s"

section \<open>Dates\<close>

text \<open>
  A \<^verbatim>\<open>datetime\<close> is the number of seconds since 0001-01-01 00:00:00 of Python's
  proleptic Gregorian calendar, offset by one day so that \<open>toordinal\<close> is a plain
  division (every datetime the generator builds has whole seconds). A
  \<^verbatim>\<open>timedelta\<close> is a number of seconds.
\<close>

definition is_leap :: "nat \<Rightarrow> bool" where
  "is_leap y = (y mod 4 = 0 \<and> (y mod 100 \<noteq> 0 \<or> y mod 400 = 0))"

definition days_before_year :: "nat \<Rightarrow> nat" where
  "days_before_year year = (let y = year - 1 in y * 365 + y div 4 - y div 100 + y div 400)"

definition days_before_month :: "nat \<Rightarrow> nat \<Rightarrow> nat" where
  "days_before_month year month =
     [0, 31, 59, 90, 120, 151, 181, 212, 243, 273, 304, 334] ! (month - 1)
       + (if 2 < month \<and> is_leap year then 1 else 0)"

definition ymd2ord :: "nat \<Rightarrow> nat \<Rightarrow> nat \<Rightarrow> nat" where
  "ymd2ord year month day = days_before_year year + days_before_month year month + day"

definition datetime :: "nat \<Rightarrow> nat \<Rightarrow> nat \<Rightarrow> nat \<Rightarrow> nat \<Rightarrow> nat \<Rightarrow> int" where
  "datetime year month day hour minute second =
     int (ymd2ord year month day) * 86400 + int hour * 3600 + int minute * 60 + int second"

definition timedelta_days :: "int \<Rightarrow> int" where
  "timedelta_days d = d * 86400"

definition timedelta_seconds :: "int \<Rightarrow> int" where
  "timedelta_seconds s = s"

definition toordinal :: "int \<Rightarrow> int" where
  "toordinal dt = dt div 86400"

text \<open>\<^verbatim>\<open>weekday()\<close>: Monday is 0, Sunday is 6.\<close>

definition weekday :: "int \<Rightarrow> int" where
  "weekday dt = (toordinal dt + 6) mod 7"

section \<open>The generator's data\<close>

text \<open>
  The dictionaries of the source are records. Field names are those of the CSV row
  (the persisted record); the fields of the in-memory customer, product, basket item
  and transaction dictionaries carry a prefix where the key is used twice.
\<close>

record customer =
  cust_id :: nat
  is_loyalty :: bool

record product =
  prod_id :: string
  prod_name :: string
  category :: string
  base_price :: real
  is_high_demand :: bool

record item =
  item_product :: product
  item_quantity :: int

record transaction =
  txn_id :: nat
  txn_customer_id :: nat
  txn_datetime :: int
  txn_store_location :: string
  txn_products :: "item list"
  txn_payment_method :: string
  txn_loyalty_member :: bool
  txn_discount_applied :: real

record line =
  transaction_id :: nat
  customer_id :: nat
  transaction_datetime :: int
  store_location :: string
  product_id :: string
  product_name :: string
  product_category :: string
  quantity :: int
  unit_price :: real
  total_price :: real
  payment_method :: string
  loyalty_member :: bool
  discount_applied :: real

text \<open>The module constants that size a run; \<open>default_config\<close> holds the source's values.\<close>

record config =
  TOTAL_TRANSACTIONS :: nat
  TOTAL_CUSTOMERS :: nat
  TOTAL_PRODUCTS :: nat
  FILES_TO_SPLIT :: nat

definition default_config :: config where
  "default_config = \<lparr>TOTAL_TRANSACTIONS = 100000, TOTAL_CUSTOMERS = 10000,
     TOTAL_PRODUCTS = 2000, FILES_TO_SPLIT = 10\<rparr>"

definition STORE_LOCATIONS :: "(string \<times> real) list" where
  "STORE_LOCATIONS = [(''Downtown'', 0.4), (''Suburb North'', 0.25),
     (''Suburb South'', 0.25), (''Coastal'', 0.1)]"

definition PRODUCT_CATEGORIES :: "(string \<times> (real \<times> real) \<times> string list) list" where
  "PRODUCT_CATEGORIES =
    [(''Dairy'', (2.99, 8.99),
        [''Whole Milk'', ''Greek Yogurt'', ''Cheddar Cheese'', ''Butter'', ''Cream'']),
     (''Bakery'', (1.99, 12.99),
        [''Whole Wheat Bread'', ''Croissants'', ''Bagels'', ''Muffins'', ''Danish'']),
     (''Produce'', (0.99, 7.99),
        [''Bananas'', ''Apples'', ''Carrots'', ''Spinach'', ''Tomatoes'']),
     (''Meat'', (5.99, 25.99),
        [''Chicken Breast'', ''Ground Beef'', ''Salmon'', ''Pork Chops'', ''Turkey'']),
     (''Frozen Foods'', (3.99, 15.99),
        [''Ice Cream'', ''Frozen Pizza'', ''Frozen Vegetables'', ''TV Dinner'', ''Fish Sticks'']),
     (''Snacks'', (1.99, 6.99),
        [''Potato Chips'', ''Pretzels'', ''Popcorn'', ''Trail Mix'', ''Cookies'']),
     (''Beverages'', (2.99, 9.99),
        [''Cola'', ''Coffee'', ''Orange Juice'', ''Energy Drink'', ''Water'']),
     (''Organic'', (3.99, 15.99),
        [''Organic Eggs'', ''Organic Milk'', ''Organic Quinoa'', ''Organic Berries'',
         ''Organic Honey'']),
     (''Pantry'', (1.99, 12.99),
        [''Pasta'', ''Rice'', ''Cereal'', ''Peanut Butter'', ''Soup'']),
     (''Personal Care'', (2.99, 19.99),
        [''Shampoo'', ''Toothpaste'', ''Soap'', ''Deodorant'', ''Lotion''])]"

definition PAYMENT_METHODS :: "string list" where
  "PAYMENT_METHODS = [''Credit Card'', ''Debit Card'', ''Cash'', ''Mobile Wallet'']"

definition DISCOUNT_RATES :: "real list" where
  "DISCOUNT_RATES = [0.05, 0.10, 0.15]"

record generator =
  customers :: "customer list"
  products :: "product list"
  holiday_weeks :: "(int \<times> int) list"

section \<open>Loops that append one element per iteration\<close>

text \<open>
  \<^verbatim>\<open>acc = []; for i in range(..): acc.append(body(i))\<close>, threading the random
  draws through the iterations in order.
\<close>

fun for_range :: "nat list \<Rightarrow> (nat \<Rightarrow> 'a rnd) \<Rightarrow> 'a list \<Rightarrow> 'a list rnd" where
  "for_range [] body acc t = Done acc t"
| "for_range (i # rest) body acc t =
     (case body i t of
        Done x t' \<Rightarrow> for_range rest body (acc @ [x]) t'
      | Raise e \<Rightarrow> Raise e
      | Starved \<Rightarrow> Starved)"

section \<open>Population generator\<close>

text \<open>\<^verbatim>\<open>_generate_customers\<close>: one identifier and one loyalty draw per customer.\<close>

definition generate_customer :: "nat \<Rightarrow> customer rnd" where
  "generate_customer i =
     bnd uuid4 (\<lambda>customer_id.
     bnd random_random (\<lambda>r.
     ret \<lparr>cust_id = customer_id, is_loyalty = r < 0.3\<rparr>))"

definition generate_customers :: "config \<Rightarrow> customer list rnd" where
  "generate_customers cfg = for_range [0..<TOTAL_CUSTOMERS cfg] generate_customer []"

text \<open>
  \<^verbatim>\<open>high_demand_count = int(TOTAL_PRODUCTS * 0.2)\<close>: \<^verbatim>\<open>int\<close> truncates, and the
  product is not negative.
\<close>

definition high_demand_count :: "config \<Rightarrow> nat" where
  "high_demand_count cfg = nat \<lfloor>real (TOTAL_PRODUCTS cfg) * 0.2\<rfloor>"

text \<open>The body of the loop of \<^verbatim>\<open>_generate_products\<close> for index \<open>i\<close>.\<close>

definition generate_product :: "nat \<Rightarrow> nat \<Rightarrow> product rnd" where
  "generate_product hd_count i =
     bnd (random_choice (map fst PRODUCT_CATEGORIES)) (\<lambda>cat.
     case map_of PRODUCT_CATEGORIES cat of
       None \<Rightarrow> (\<lambda>t. Raise KeyError)
     | Some ((lo, hi), items) \<Rightarrow>
         bnd (random_choice items) (\<lambda>base_name.
         let min_price = (if cat = ''Organic'' then lo * 1.2 else lo);
             max_price = (if cat = ''Organic'' then hi * 1.2 else hi);
             high_demand = (i < hd_count)
         in bnd (random_uniform min_price max_price) (\<lambda>price.
            ret \<lparr>prod_id = ''PROD_'' @ zfill (str_nat (i + 1)) 4,
                 prod_name = base_name @ '' '' @ str_nat (i + 1),
                 category = cat,
                 base_price = py_round price 2,
                 is_high_demand = high_demand\<rparr>)))"

definition generate_products :: "config \<Rightarrow> product list rnd" where
  "generate_products cfg =
     for_range [0..<TOTAL_PRODUCTS cfg] (generate_product (high_demand_count cfg)) []"

section \<open>Holiday weeks\<close>

definition holidays :: "(nat \<times> nat \<times> nat) list" where
  "holidays = [(2023, 1, 1), (2023, 12, 25), (2023, 11, 23),
               (2023, 7, 4), (2023, 5, 29), (2023, 9, 4)]"

text \<open>
  \<^verbatim>\<open>_get_holiday_weeks\<close>: each holiday string is parsed to midnight of its date;
  the week starts \<^verbatim>\<open>weekday()\<close> days earlier and ends six days after its start.
\<close>

definition holiday_week :: "nat \<times> nat \<times> nat \<Rightarrow> int \<times> int" where
  "holiday_week holiday =
     (case holiday of (y, m, d) \<Rightarrow>
        let date = datetime y m d 0 0 0;
            week_start = date - timedelta_days (weekday date);
            week_end = week_start + timedelta_days 6
        in (week_start, week_end))"

definition get_holiday_weeks :: "(int \<times> int) list" where
  "get_holiday_weeks = map holiday_week holidays"

text \<open>\<^verbatim>\<open>_is_holiday_week\<close>: the first week that holds the date returns True.\<close>

fun in_weeks :: "(int \<times> int) list \<Rightarrow> int \<Rightarrow> bool" where
  "in_weeks [] date = False"
| "in_weeks ((start, end) # weeks) date =
     (if start \<le> date \<and> date \<le> end then True else in_weeks weeks date)"

definition is_holiday_week :: "generator \<Rightarrow> int \<Rightarrow> bool" where
  "is_holiday_week g date = in_weeks (holiday_weeks g) date"

text \<open>\<^verbatim>\<open>GroceryDataGenerator.__init__\<close>.\<close>

definition init :: "config \<Rightarrow> generator rnd" where
  "init cfg =
     bnd (generate_customers cfg) (\<lambda>cs.
     bnd (generate_products cfg) (\<lambda>ps.
     ret \<lparr>customers = cs, products = ps, holiday_weeks = get_holiday_weeks\<rparr>))"

section \<open>Transaction synthesizer\<close>

definition start_date :: int where
  "start_date = datetime 2023 1 1 0 0 0"

definition end_date :: int where
  "end_date = datetime 2023 12 31 0 0 0"

text \<open>
  The \<^verbatim>\<open>if\<close> / \<^verbatim>\<open>elif\<close> / \<^verbatim>\<open>elif\<close> chain that ends the body of the
  \<^verbatim>\<open>while True\<close> loop: the result is True when one of the three conditions holds
  (\<^verbatim>\<open>break\<close>). Python's \<^verbatim>\<open>and\<close> evaluates \<^verbatim>\<open>random.random()\<close> only when its left
  operand is true, and an \<^verbatim>\<open>elif\<close> is tried whenever the conditions before it were
  false.
\<close>

definition date_accepted :: "bool \<Rightarrow> bool \<Rightarrow> bool rnd" where
  "date_accepted is_weekend is_holiday =
     bnd (if is_weekend then bnd random_random (\<lambda>r. ret (r < 0.3)) else ret False)
       (\<lambda>weekend_break.
          if weekend_break then ret True
          else bnd (if is_holiday then bnd random_random (\<lambda>r. ret (r < 0.2)) else ret False)
            (\<lambda>holiday_break.
               if holiday_break then ret True
               else bnd random_random (\<lambda>r. ret (r < 0.5))))"

text \<open>
  The \<^verbatim>\<open>while True\<close> loop of \<^verbatim>\<open>generate_transaction\<close>: a candidate date is
  drawn, classified and put to \<open>date_accepted\<close>; a rejected candidate is drawn again.
  Every iteration consumes draws, so on a finite prefix of draws the loop ends.
\<close>

function draw_transaction_date :: "generator \<Rightarrow> int rnd" where
  "draw_transaction_date g t =
     (case random_randint 0 ((end_date - start_date)) t of
        Done s t1 \<Rightarrow>
          (let transaction_date = start_date + timedelta_seconds s;
               is_weekend = (5 \<le> weekday transaction_date);
               is_holiday = is_holiday_week g transaction_date
           in case date_accepted is_weekend is_holiday t1 of
                Done accepted t2 \<Rightarrow>
                  if accepted then Done transaction_date t2 else draw_transaction_date g t2
              | Raise e \<Rightarrow> Raise e
              | Starved \<Rightarrow> Starved)
      | Raise e \<Rightarrow> Raise e
      | Starved \<Rightarrow> Starved)"
  by pat_completeness auto
termination
proof (relation "measure (\<lambda>(g, t). length t)")
  show "wf (measure (\<lambda>(g, t). length t))" by simp
next
  fix g :: generator and t t1 t2 :: "nat list" and s :: int
    and transaction_date :: int and is_weekend is_holiday accepted :: bool
  assume candidate: "random_randint 0 (end_date - start_date) t = Done s t1"
    and decided: "date_accepted is_weekend is_holiday t1 = Done accepted t2"
  have draw: "length u' < length u" if "random_random u = Done r u'" for u u' r
    using that by (cases u) auto
  from candidate have "length t1 < length t"
    by (cases t) (auto split: if_splits)
  moreover from decided have "length t2 < length t1"
    by (auto simp: date_accepted_def bnd_def ret_def split: run.splits if_splits
          dest!: draw)
  ultimately have "length t2 < length t" by simp
  then show "((g, t2), (g, t)) \<in> measure (\<lambda>(g, t). length t)" by simp
qed

declare draw_transaction_date.simps [simp del]

text \<open>
  One basket slot: the product (among the high-demand ones with probability 0.3),
  then the quantity with its two overrides.
\<close>

definition select_product :: "product list \<Rightarrow> product rnd" where
  "select_product ps =
     bnd random_random (\<lambda>r.
       if r < 0.3 then random_choice (filter is_high_demand ps) else random_choice ps)"

definition draw_quantity :: "int rnd" where
  "draw_quantity =
     bnd (random_randint 1 10) (\<lambda>q.
     bnd random_random (\<lambda>r1.
     bnd (if r1 < 0.1 then random_randint 6 10 else ret q) (\<lambda>q1.
     bnd random_random (\<lambda>r2.
     if r2 < 0.001 then random_randint 50 100 else ret q1))))"

definition basket_item :: "generator \<Rightarrow> nat \<Rightarrow> item rnd" where
  "basket_item g i =
     bnd (select_product (products g)) (\<lambda>p.
     bnd draw_quantity (\<lambda>q.
     ret \<lparr>item_product = p, item_quantity = q\<rparr>))"

text \<open>
  \<^verbatim>\<open>generate_transaction\<close>. The basket size is \<^verbatim>\<open>random.randint(1, 15)\<close>:
  \<^verbatim>\<open>np.random.choice\<close> over that single value with probability 1 returns it. The
  entries of the returned dictionary are evaluated in the order they are written.
\<close>

definition generate_transaction :: "generator \<Rightarrow> transaction rnd" where
  "generate_transaction g =
     bnd (random_choice (customers g)) (\<lambda>c.
     bnd (draw_transaction_date g) (\<lambda>transaction_date.
     bnd (random_randint 1 15) (\<lambda>num_items.
     bnd (for_range [0..<nat num_items] (basket_item g) []) (\<lambda>transaction_products.
     let discount_chance = (if is_loyalty c then 0.4 else 0.2 :: real) in
     bnd random_random (\<lambda>r.
     bnd (if r < discount_chance then random_choice DISCOUNT_RATES else ret 0) (\<lambda>discount.
     bnd uuid4 (\<lambda>tid.
     bnd (random_choices (map fst STORE_LOCATIONS) (map snd STORE_LOCATIONS)) (\<lambda>store.
     bnd (random_choice PAYMENT_METHODS) (\<lambda>payment.
     ret \<lparr>txn_id = tid,
          txn_customer_id = cust_id c,
          txn_datetime = transaction_date,
          txn_store_location = store,
          txn_products = transaction_products,
          txn_payment_method = payment,
          txn_loyalty_member = is_loyalty c,
          txn_discount_applied = discount\<rparr>)))))))))"

section \<open>Dataset generation and partitioning\<close>

text \<open>The inner loop of \<^verbatim>\<open>generate_dataset\<close>: one row per product of the transaction.\<close>

definition flatten_row :: "transaction \<Rightarrow> item \<Rightarrow> line" where
  "flatten_row txn product_info =
     (let p = item_product product_info;
          qty = item_quantity product_info;
          price = base_price p;
          total = py_round (real_of_int qty * price * (1 - txn_discount_applied txn)) 2
      in \<lparr>transaction_id = txn_id txn,
           customer_id = txn_customer_id txn,
           transaction_datetime = txn_datetime txn,
           store_location = txn_store_location txn,
           product_id = prod_id p,
           product_name = prod_name p,
           product_category = category p,
           quantity = qty,
           unit_price = price,
           total_price = total,
           payment_method = txn_payment_method txn,
           loyalty_member = txn_loyalty_member txn,
           discount_applied = txn_discount_applied txn\<rparr>)"

definition flatten :: "transaction \<Rightarrow> line list" where
  "flatten txn = map (flatten_row txn) (txn_products txn)"

text \<open>The outer loop: \<open>n\<close> transactions, each appending its rows to \<open>transactions\<close>.\<close>

fun generate_rows :: "generator \<Rightarrow> nat \<Rightarrow> line list \<Rightarrow> line list rnd" where
  "generate_rows g 0 transactions t = Done transactions t"
| "generate_rows g (Suc n) transactions t =
     (case generate_transaction g t of
        Done txn t' \<Rightarrow> generate_rows g n (transactions @ flatten txn) t'
      | Raise e \<Rightarrow> Raise e
      | Starved \<Rightarrow> Starved)"

text \<open>
  \<^verbatim>\<open>df.iloc[start:end]\<close> for indices that are not negative (\<^verbatim>\<open>end\<close> may be
  \<^verbatim>\<open>None\<close>): a slice never fails, it stops at the end of the table.
\<close>

definition iloc :: "'a list \<Rightarrow> nat \<Rightarrow> nat option \<Rightarrow> 'a list" where
  "iloc df start_idx end_idx =
     (case end_idx of
        None \<Rightarrow> drop start_idx df
      | Some e \<Rightarrow> take (e - start_idx) (drop start_idx df))"

text \<open>
  The partitioner of \<^verbatim>\<open>generate_dataset\<close>; the result lists the tables written
  to the files 1, 2, ... in order. \<^verbatim>\<open>len(df) // FILES_TO_SPLIT\<close> raises for no files.
\<close>

definition file_chunk :: "'a list \<Rightarrow> nat \<Rightarrow> nat \<Rightarrow> nat \<Rightarrow> 'a list" where
  "file_chunk df files rows_per_file i =
     (let start_idx = i * rows_per_file;
          end_idx = (if i < files - 1 then Some (start_idx + rows_per_file) else None)
      in iloc df start_idx end_idx)"

definition split_files :: "'a list \<Rightarrow> nat \<Rightarrow> error + 'a list list" where
  "split_files df files =
     (if files = 0 then Inl ZeroDivisionError
      else let rows_per_file = length df div files
           in Inr (map (file_chunk df files rows_per_file) [0..<files]))"

definition generate_dataset :: "config \<Rightarrow> generator \<Rightarrow> line list list rnd" where
  "generate_dataset cfg g =
     bnd (generate_rows g (TOTAL_TRANSACTIONS cfg) []) (\<lambda>df.
       case split_files df (FILES_TO_SPLIT cfg) of
         Inl e \<Rightarrow> (\<lambda>t. Raise e)
       | Inr files \<Rightarrow> ret files)"

definition main :: "config \<Rightarrow> line list list rnd" where
  "main cfg = bnd (init cfg) (generate_dataset cfg)"

section \<open>The reporting layer: pandas values\<close>

text \<open>
  The dashboard (\<^verbatim>\<open>grocery_analysis_app.py\<close>) computes its metrics with pandas on
  the table loaded from the CSV files; a table is the list of its rows. A float64 is a
  real number, NaN or an infinity (the sign of zero is not modelled); arithmetic on the
  finite values is idealised as real arithmetic, and the special values follow IEEE 754,
  which pandas follows without raising.
\<close>

datatype pyfloat = Fin real | NaN | PosInf | NegInf

fun fsub :: "pyfloat \<Rightarrow> pyfloat \<Rightarrow> pyfloat" where
  "fsub (Fin x) (Fin y) = Fin (x - y)"
| "fsub NaN _ = NaN"
| "fsub _ NaN = NaN"
| "fsub PosInf PosInf = NaN"
| "fsub NegInf NegInf = NaN"
| "fsub PosInf _ = PosInf"
| "fsub NegInf _ = NegInf"
| "fsub (Fin x) PosInf = NegInf"
| "fsub (Fin x) NegInf = PosInf"

fun fmul :: "pyfloat \<Rightarrow> pyfloat \<Rightarrow> pyfloat" where
  "fmul (Fin x) (Fin y) = Fin (x * y)"
| "fmul NaN _ = NaN"
| "fmul _ NaN = NaN"
| "fmul (Fin x) PosInf = (if x = 0 then NaN else if 0 < x then PosInf else NegInf)"
| "fmul (Fin x) NegInf = (if x = 0 then NaN else if 0 < x then NegInf else PosInf)"
| "fmul PosInf (Fin y) = (if y = 0 then NaN else if 0 < y then PosInf else NegInf)"
| "fmul NegInf (Fin y) = (if y = 0 then NaN else if 0 < y then NegInf else PosInf)"
| "fmul PosInf PosInf = PosInf"
| "fmul NegInf NegInf = PosInf"
| "fmul PosInf NegInf = NegInf"
| "fmul NegInf PosInf = NegInf"

text \<open>Division by a zero gives an infinity, or NaN for 0 / 0; it does not raise.\<close>

fun fdiv :: "pyfloat \<Rightarrow> pyfloat \<Rightarrow> pyfloat" where
  "fdiv (Fin x) (Fin y) =
     (if y = 0 then (if x = 0 then NaN else if 0 < x then PosInf else NegInf)
      else Fin (x / y))"
| "fdiv NaN _ = NaN"
| "fdiv _ NaN = NaN"
| "fdiv (Fin x) PosInf = Fin 0"
| "fdiv (Fin x) NegInf = Fin 0"
| "fdiv PosInf (Fin y) = (if 0 \<le> y then PosInf else NegInf)"
| "fdiv NegInf (Fin y) = (if 0 \<le> y then NegInf else PosInf)"
| "fdiv PosInf _ = NaN"
| "fdiv NegInf _ = NaN"

fun fabs :: "pyfloat \<Rightarrow> pyfloat" where
  "fabs (Fin x) = Fin \<bar>x\<bar>"
| "fabs NaN = NaN"
| "fabs PosInf = PosInf"
| "fabs NegInf = PosInf"

text \<open>\<^verbatim>\<open>a > b\<close>: every comparison with NaN is False.\<close>

fun fgt :: "pyfloat \<Rightarrow> pyfloat \<Rightarrow> bool" where
  "fgt (Fin x) (Fin y) = (y < x)"
| "fgt NaN _ = False"
| "fgt _ NaN = False"
| "fgt PosInf PosInf = False"
| "fgt PosInf _ = True"
| "fgt NegInf _ = False"
| "fgt (Fin x) PosInf = False"
| "fgt (Fin x) NegInf = True"

text \<open>
  \<^verbatim>\<open>Series.mean()\<close> and \<^verbatim>\<open>Series.std()\<close> of a column of finite values. The
  standard deviation is the sample one (\<^verbatim>\<open>ddof=1\<close>, the pandas default): it is NaN
  for fewer than two values. The mean of an empty column is NaN.
\<close>

definition pd_mean :: "real list \<Rightarrow> pyfloat" where
  "pd_mean xs = (if xs = [] then NaN else Fin (sum_list xs / real (length xs)))"

definition pd_std :: "real list \<Rightarrow> pyfloat" where
  "pd_std xs =
     (if length xs < 2 then NaN
      else let m = sum_list xs / real (length xs)
           in Fin (sqrt (sum_list (map (\<lambda>x. (x - m)\<^sup>2) xs) / real (length xs - 1))))"

text \<open>The mean of a boolean column: the share of True.\<close>

definition bool_mean :: "bool list \<Rightarrow> pyfloat" where
  "bool_mean bs =
     (if bs = [] then NaN else Fin (real (length (filter (\<lambda>b. b) bs)) / real (length bs)))"

text \<open>\<^verbatim>\<open>Series.nunique()\<close>.\<close>

definition nunique :: "'a list \<Rightarrow> nat" where
  "nunique xs = length (remdups xs)"

text \<open>
  \<^verbatim>\<open>df.groupby(key)\<close>: one group per distinct key, holding the rows with that key
  in table order. pandas lists the groups in key order; every use below either looks a
  group up by its key or takes a mean over the groups, so the groups are listed here in
  the order the keys first appear.
\<close>

definition groupby :: "(line \<Rightarrow> 'k) \<Rightarrow> line list \<Rightarrow> ('k \<times> line list) list" where
  "groupby key df = map (\<lambda>k. (k, filter (\<lambda>l. key l = k) df)) (remdups (map key df))"

section \<open>Anomaly metrics\<close>

record product_stat =
  stat_product_id :: string
  qty_mean :: pyfloat
  qty_std :: pyfloat
  price_mean :: pyfloat
  price_std :: pyfloat

text \<open>
  \<^verbatim>\<open>df.groupby('product_id').agg({'quantity': ['mean', 'std'],
  'unit_price': ['mean', 'std']}).reset_index()\<close>
\<close>

definition product_stats :: "line list \<Rightarrow> product_stat list" where
  "product_stats df =
     map (\<lambda>(pid, rows).
            \<lparr>stat_product_id = pid,
             qty_mean = pd_mean (map (\<lambda>l. real_of_int (quantity l)) rows),
             qty_std = pd_std (map (\<lambda>l. real_of_int (quantity l)) rows),
             price_mean = pd_mean (map unit_price rows),
             price_std = pd_std (map unit_price rows)\<rparr>)
         (groupby product_id df)"

text \<open>\<^verbatim>\<open>df.merge(product_stats, on='product_id')\<close>: an inner join in the order of \<open>df\<close>.\<close>

definition merge_on_product_id ::
    "line list \<Rightarrow> product_stat list \<Rightarrow> (line \<times> product_stat) list" where
  "merge_on_product_id df stats =
     concat (map (\<lambda>l. map (\<lambda>s. (l, s))
                         (filter (\<lambda>s. stat_product_id s = product_id l) stats)) df)"

text \<open>\<^verbatim>\<open>Series.replace(0, 1)\<close> on one value: NaN is not 0 and stays.\<close>

definition replace_0_1 :: "pyfloat \<Rightarrow> pyfloat" where
  "replace_0_1 x = (if x = Fin 0 then Fin 1 else x)"

text \<open>\<^verbatim>\<open>df_metrics\<close> of \<^verbatim>\<open>get_anomaly_metrics\<close> after the two replacements.\<close>

definition df_metrics :: "line list \<Rightarrow> (line \<times> product_stat) list" where
  "df_metrics df =
     map (\<lambda>(l, s). (l, s\<lparr>qty_std := replace_0_1 (qty_std s),
                          price_std := replace_0_1 (price_std s)\<rparr>))
         (merge_on_product_id df (product_stats df))"

definition quantity_zscore :: "line \<times> product_stat \<Rightarrow> pyfloat" where
  "quantity_zscore r =
     fdiv (fsub (Fin (real_of_int (quantity (fst r)))) (qty_mean (snd r))) (qty_std (snd r))"

definition price_zscore :: "line \<times> product_stat \<Rightarrow> pyfloat" where
  "price_zscore r =
     fdiv (fsub (Fin (unit_price (fst r))) (price_mean (snd r))) (price_std (snd r))"

text \<open>
  \<^verbatim>\<open>df_metrics.groupby('product_category')['total_price'].transform('mean')\<close>
  for one row: the mean total price of the rows of its category.
\<close>

definition category_mean_total :: "(line \<times> product_stat) list \<Rightarrow> line \<Rightarrow> pyfloat" where
  "category_mean_total rows l =
     pd_mean (map (\<lambda>r. total_price (fst r))
                  (filter (\<lambda>r. product_category (fst r) = product_category l) rows))"

definition get_anomaly_metrics :: "line list \<Rightarrow> pyfloat \<times> pyfloat \<times> pyfloat" where
  "get_anomaly_metrics df =
     (let rows = df_metrics df;
          quantity_anomalies =
            fmul (bool_mean (map (\<lambda>r. fgt (fabs (quantity_zscore r)) (Fin 3)) rows)) (Fin 100);
          price_anomalies =
            fmul (bool_mean (map (\<lambda>r. fgt (fabs (price_zscore r)) (Fin 3)) rows)) (Fin 100);
          high_value_transactions =
            fmul (bool_mean (map (\<lambda>r. fgt (Fin (total_price (fst r)))
                                        (fmul (category_mean_total rows (fst r)) (Fin 3))) rows))
                 (Fin 100)
      in (quantity_anomalies, price_anomalies, high_value_transactions))"

text \<open>
  The z-scores of \<^verbatim>\<open>create_anomaly_detection\<close>: the statistics are grouped by
  product id, name and category and merged back on the product id (the columns
  \<^verbatim>\<open>avg_quantity\<close> and \<^verbatim>\<open>avg_price\<close> are the fields \<open>qty_mean\<close> and
  \<open>price_mean\<close>); the standard deviations are used as they are.
\<close>

definition detection_stats :: "line list \<Rightarrow> product_stat list" where
  "detection_stats df =
     map (\<lambda>(key, rows).
            \<lparr>stat_product_id = fst key,
             qty_mean = pd_mean (map (\<lambda>l. real_of_int (quantity l)) rows),
             qty_std = pd_std (map (\<lambda>l. real_of_int (quantity l)) rows),
             price_mean = pd_mean (map unit_price rows),
             price_std = pd_std (map unit_price rows)\<rparr>)
         (groupby (\<lambda>l. (product_id l, product_name l, product_category l)) df)"

definition df_anomaly :: "line list \<Rightarrow> (line \<times> product_stat) list" where
  "df_anomaly df = merge_on_product_id df (detection_stats df)"

section \<open>Retention metrics\<close>

text \<open>
  Timestamps of the loaded table are counted in seconds, as the generator writes them;
  \<^verbatim>\<open>.days\<close> of a difference of timestamps is its number of whole days.
\<close>

definition timedelta_whole_days :: "int \<Rightarrow> int" where
  "timedelta_whole_days delta = delta div 86400"

definition series_max :: "int list \<Rightarrow> int" where
  "series_max xs = Max (set xs)"

definition series_min :: "int list \<Rightarrow> int" where
  "series_min xs = Min (set xs)"

text \<open>
  \<^verbatim>\<open>get_retention_metrics\<close>. On an empty table every aggregate is NaN or NaT and so
  are the three results.
\<close>

definition get_retention_metrics :: "line list \<Rightarrow> pyfloat \<times> pyfloat \<times> pyfloat" where
  "get_retention_metrics df =
     (if df = [] then (NaN, NaN, NaN)
      else
        let by_customer = groupby customer_id df;
            repeat_customers =
              map (\<lambda>(c, rows). nunique (map transaction_id rows)) by_customer;
            repeat_rate = fmul (bool_mean (map (\<lambda>n. 1 < n) repeat_customers)) (Fin 100);
            date_range =
              Fin (real_of_int (timedelta_whole_days
                     (series_max (map transaction_datetime df)
                        - series_min (map transaction_datetime df))) / 30);
            avg_monthly_frequency = fdiv (pd_mean (map real repeat_customers)) date_range;
            last_purchase_date = series_max (map transaction_datetime df);
            customer_last_purchase =
              map (\<lambda>(c, rows). series_max (map transaction_datetime rows)) by_customer;
            days_since_purchase =
              map (\<lambda>d. timedelta_whole_days (last_purchase_date - d)) customer_last_purchase;
            churn_risk = fmul (bool_mean (map (\<lambda>d. 90 < d) days_since_purchase)) (Fin 100)
        in (repeat_rate, avg_monthly_frequency, churn_risk))"

section \<open>Notions and inputs used to state and to illustrate the properties\<close>

text \<open>
  A run of one transaction: a generator with one loyalty customer and two products, and
  the twenty draws that pick Tuesday 2023-01-03, a basket of two items (three units of
  the first product, seven of the second one after the bulk override), a discount of
  15 percent, the first store and the third payment method.
\<close>

definition example_generator :: generator where
  "example_generator =
     \<lparr>customers = [\<lparr>cust_id = 7, is_loyalty = True\<rparr>],
      products = [\<lparr>prod_id = ''PROD_0001'', prod_name = ''Whole Milk 1'', category = ''Dairy'',
                   base_price = 2.99, is_high_demand = True\<rparr>,
                  \<lparr>prod_id = ''PROD_0002'', prod_name = ''Bagels 2'', category = ''Bakery'',
                   base_price = 4, is_high_demand = False\<rparr>],
      holiday_weeks = get_holiday_weeks\<rparr>"

definition example_draws :: "nat list" where
  "example_draws = [0, 172800, 0, 1,
     0, 0, 2, 4503599627370496, 4503599627370496,
     4503599627370496, 1, 4, 0, 1, 4503599627370496,
     0, 2, 42, 0, 2]"

definition example_txn :: transaction where
  "example_txn =
     \<lparr>txn_id = 42, txn_customer_id = 7, txn_datetime = 63808387200,
      txn_store_location = ''Downtown'',
      txn_products =
        [\<lparr>item_product =
            \<lparr>prod_id = ''PROD_0001'', prod_name = ''Whole Milk 1'', category = ''Dairy'',
              base_price = 2.99, is_high_demand = True\<rparr>,
          item_quantity = 3\<rparr>,
         \<lparr>item_product =
            \<lparr>prod_id = ''PROD_0002'', prod_name = ''Bagels 2'', category = ''Bakery'',
              base_price = 4, is_high_demand = False\<rparr>,
          item_quantity = 7\<rparr>],
      txn_payment_method = ''Cash'', txn_loyalty_member = True,
      txn_discount_applied = 0.15\<rparr>"

definition example_row_milk :: line where
  "example_row_milk =
     \<lparr>transaction_id = 42, customer_id = 7, transaction_datetime = 63808387200,
      store_location = ''Downtown'', product_id = ''PROD_0001'',
      product_name = ''Whole Milk 1'', product_category = ''Dairy'', quantity = 3,
      unit_price = 2.99, total_price = 7.62, payment_method = ''Cash'',
      loyalty_member = True, discount_applied = 0.15\<rparr>"

definition example_row_bagels :: line where
  "example_row_bagels =
     \<lparr>transaction_id = 42, customer_id = 7, transaction_datetime = 63808387200,
      store_location = ''Downtown'', product_id = ''PROD_0002'',
      product_name = ''Bagels 2'', product_category = ''Bakery'', quantity = 7,
      unit_price = 4, total_price = 23.8, payment_method = ''Cash'',
      loyalty_member = True, discount_applied = 0.15\<rparr>"

text \<open>A row of the loaded table: one unit of a product bought by a customer at a time.\<close>

definition visit :: "nat \<Rightarrow> nat \<Rightarrow> int \<Rightarrow> line" where
  "visit customer txn time =
     \<lparr>transaction_id = txn, customer_id = customer, transaction_datetime = time,
      store_location = ''Downtown'', product_id = ''PROD_0001'',
      product_name = ''Whole Milk 1'', product_category = ''Dairy'', quantity = 1,
      unit_price = 2.99, total_price = 2.99, payment_method = ''Cash'',
      loyalty_member = False, discount_applied = 0\<rparr>"

text \<open>
  The rows of one product in table order, and the row of statistics that
  \<open>product_stats\<close> holds for the product.
\<close>

definition product_rows :: "line list \<Rightarrow> string \<Rightarrow> line list" where
  "product_rows df pid = filter (\<lambda>l. product_id l = pid) df"

definition stat_of :: "line list \<Rightarrow> string \<Rightarrow> product_stat" where
  "stat_of df pid =
     \<lparr>stat_product_id = pid,
      qty_mean = pd_mean (map (\<lambda>l. real_of_int (quantity l)) (product_rows df pid)),
      qty_std = pd_std (map (\<lambda>l. real_of_int (quantity l)) (product_rows df pid)),
      price_mean = pd_mean (map unit_price (product_rows df pid)),
      price_std = pd_std (map unit_price (product_rows df pid))\<rparr>"

text \<open>Two rows of one product with the same quantity and price.\<close>

definition constant_quantity_table :: "line list" where
  "constant_quantity_table = [visit 1 10 63808214400, visit 2 11 63808300800]"

definition constant_quantity_stat :: product_stat where
  "constant_quantity_stat =
     \<lparr>stat_product_id = ''PROD_0001'', qty_mean = Fin 1, qty_std = Fin 1,
      price_mean = Fin 2.99, price_std = Fin 1\<rparr>"

text \<open>
  The sets the retention metrics range over: the distinct customers of a table and the
  rows of one customer.
\<close>

definition customers_of :: "line list \<Rightarrow> nat set" where
  "customers_of df = customer_id ` set df"

definition rows_of :: "line list \<Rightarrow> nat \<Rightarrow> line set" where
  "rows_of df c = {l \<in> set df. customer_id l = c}"

text \<open>
  Customer 1 buys twice, the second time 100 days after the first; customer 2 buys once,
  95 days before the end of the table.
\<close>

definition retention_table :: "line list" where
  "retention_table =
     [visit 1 10 63808214400, visit 1 11 (63808214400 + 100 * 86400),
      visit 2 12 (63808214400 + 5 * 86400)]"

text \<open>Customer 1 buys once; customer 2 buys once, 90 days and one hour later.\<close>

definition ninety_days_table :: "line list" where
  "ninety_days_table =
     [visit 1 10 63808214400, visit 2 11 (63808214400 + 90 * 86400 + 3600)]"

section \<open>The partitioner\<close>

lemma file_chunk_inner:
  "i < files - 1 \<Longrightarrow> file_chunk df files r i = take r (drop (i * r) df)"
  by (simp add: file_chunk_def iloc_def)

lemma file_chunk_last:
  "file_chunk df files r (files - 1) = drop ((files - 1) * r) df"
  by (simp add: file_chunk_def iloc_def)

lemma concat_inner_chunks:
  "m \<le> files - 1 \<Longrightarrow> concat (map (file_chunk df files r) [0..<m]) = take (m * r) df"
proof (induction m)
  case 0
  then show ?case by simp
next
  case (Suc m)
  then have "concat (map (file_chunk df files r) [0..<Suc m])
      = take (m * r) df @ take r (drop (m * r) df)"
    by (simp add: file_chunk_inner)
  also have "\<dots> = take (m * r + r) df"
    by (simp add: take_add)
  finally show ?case by (simp add: add.commute)
qed

lemma length_inner_chunk:
  assumes "i < files - 1"
  shows "length (file_chunk df files (length df div files) i) = length df div files"
proof -
  let ?r = "length df div files"
  have "Suc i * ?r \<le> files * ?r"
    using assms by (intro mult_le_mono1) simp
  also have "\<dots> \<le> length df" by simp
  finally have "i * ?r + ?r \<le> length df" by simp
  then show ?thesis using assms by (simp add: file_chunk_inner)
qed

lemma upt_last_split: "1 \<le> files \<Longrightarrow> [0..<files] = [0..<files - 1] @ [files - 1]"
  by (cases files) simp_all

lemma chunks_split:
  assumes "1 \<le> files"
  shows "map (file_chunk df files r) [0..<files]
           = map (file_chunk df files r) [0..<files - 1] @ [drop ((files - 1) * r) df]"
  using upt_last_split [OF assms] file_chunk_last [of df files r]
  by (metis list.simps(8,9) map_append)

lemma concat_chunks:
  "1 \<le> files \<Longrightarrow> concat (map (file_chunk df files r) [0..<files]) = df"
  by (subst chunks_split) (simp_all add: concat_inner_chunks)

lemma split_files_concat:
  "split_files df files = Inr chunks \<Longrightarrow> concat chunks = df"
  by (auto simp: split_files_def Let_def concat_chunks split: if_splits)

text \<open>
  Claim C2. For every table \<open>df\<close> of n rows and every number of files k with
  \<open>1 \<le> k\<close>, the partitioner does not fail and writes exactly k chunks; each of
  the first k - 1 chunks has \<open>n div k\<close> rows, the last one has the remaining
  \<open>n - (k - 1) * (n div k)\<close> rows, the chunks concatenated in order are the table
  itself, and their sizes add up to n.
\<close>

theorem split_files_partition:
  assumes "1 \<le> files"
  shows "\<exists>chunks. split_files df files = Inr chunks
           \<and> length chunks = files
           \<and> (\<forall>i < files - 1. length (chunks ! i) = length df div files)
           \<and> length (last chunks) = length df - (files - 1) * (length df div files)
           \<and> concat chunks = df
           \<and> sum_list (map length chunks) = length df"
proof -
  let ?r = "length df div files"
  let ?chunks = "map (file_chunk df files ?r) [0..<files]"
  have eq: "split_files df files = Inr ?chunks"
    using assms by (simp add: split_files_def)
  have len: "length ?chunks = files" by simp
  have inner: "\<forall>i < files - 1. length (?chunks ! i) = ?r"
    using length_inner_chunk [of _ files df] by auto
  have lst: "length (last ?chunks) = length df - (files - 1) * ?r"
    by (subst chunks_split [OF assms]) simp
  have cat: "concat ?chunks = df"
    using assms by (rule concat_chunks)
  have total: "sum_list (map length ?chunks) = length df"
    using cat by (metis length_concat)
  from eq len inner lst cat total show ?thesis by blast
qed

text \<open>Seven rows in three files: two, two and three rows.\<close>

theorem split_files_partition_witness:
  "(1::nat) \<le> 3 \<and> split_files [10, 11, 12, 13, 14, 15, 16 :: nat] 3
      = Inr [[10, 11], [12, 13], [14, 15, 16]]
   \<and> (\<exists>chunks. split_files [10, 11, 12, 13, 14, 15, 16 :: nat] 3 = Inr chunks
         \<and> length chunks = 3 \<and> concat chunks = [10, 11, 12, 13, 14, 15, 16])"
proof -
  have "split_files [10, 11, 12, 13, 14, 15, 16 :: nat] 3 = Inr [[10, 11], [12, 13], [14, 15, 16]]"
    by (simp add: split_files_def file_chunk_def iloc_def upt_rec)
  moreover have "\<exists>chunks. split_files [10, 11, 12, 13, 14, 15, 16 :: nat] 3 = Inr chunks
         \<and> length chunks = 3 \<and> concat chunks = [10, 11, 12, 13, 14, 15, 16]"
    using split_files_partition [of 3 "[10, 11, 12, 13, 14, 15, 16 :: nat]"] by auto
  ultimately show ?thesis by simp
qed

section \<open>The monad of draws\<close>

lemma bnd_DoneD:
  "bnd m f t = Done y t' \<Longrightarrow> \<exists>x t1. m t = Done x t1 \<and> f x t1 = Done y t'"
  by (cases "m t") (simp_all add: bnd_def)

lemma ret_DoneD: "ret x t = Done y t' \<Longrightarrow> y = x \<and> t' = t"
  by (simp add: ret_def)

section \<open>Population generator: the high-demand flag\<close>

lemma for_range_result:
  "for_range is body acc t = Done xs t' \<Longrightarrow>
     \<exists>ys. xs = acc @ ys \<and> list_all2 (\<lambda>i y. \<exists>t1 t2. body i t1 = Done y t2) is ys"
proof (induction "is" arbitrary: acc t)
  case Nil
  then show ?case by simp
next
  case (Cons i rest)
  from Cons.prems obtain x t1 where
    step: "body i t = Done x t1" and tail: "for_range rest body (acc @ [x]) t1 = Done xs t'"
    by (auto split: run.splits)
  from Cons.IH [OF tail] obtain ys where
    "xs = (acc @ [x]) @ ys" "list_all2 (\<lambda>i y. \<exists>t1 t2. body i t1 = Done y t2) rest ys"
    by blast
  with step have "xs = acc @ (x # ys) \<and> list_all2 (\<lambda>i y. \<exists>t1 t2. body i t1 = Done y t2) (i # rest) (x # ys)"
    by auto
  then show ?case by blast
qed

lemma generate_product_flag:
  assumes "generate_product hd_count i t = Done p t'"
  shows "is_high_demand p = (i < hd_count)"
proof -
  from assms obtain cat t1 where
    rest: "(case map_of PRODUCT_CATEGORIES cat of
       None \<Rightarrow> (\<lambda>t. Raise KeyError)
     | Some ((lo, hi), items) \<Rightarrow>
         bnd (random_choice items) (\<lambda>base_name.
         let min_price = (if cat = ''Organic'' then lo * 1.2 else lo);
             max_price = (if cat = ''Organic'' then hi * 1.2 else hi);
             high_demand = (i < hd_count)
         in bnd (random_uniform min_price max_price) (\<lambda>price.
            ret \<lparr>prod_id = ''PROD_'' @ zfill (str_nat (i + 1)) 4,
                 prod_name = base_name @ '' '' @ str_nat (i + 1),
                 category = cat,
                 base_price = py_round price 2,
                 is_high_demand = high_demand\<rparr>))) t1 = Done p t'"
    unfolding generate_product_def by (blast dest: bnd_DoneD)
  show ?thesis
  proof (cases "map_of PRODUCT_CATEGORIES cat")
    case None
    with rest show ?thesis by simp
  next
    case (Some entry)
    obtain lo hi items where entry: "entry = ((lo, hi), items)"
      by (cases entry) auto
    from rest Some entry obtain base_name t2 price t3 where
      "ret \<lparr>prod_id = ''PROD_'' @ zfill (str_nat (i + 1)) 4,
                 prod_name = base_name @ '' '' @ str_nat (i + 1),
                 category = cat,
                 base_price = py_round price 2,
                 is_high_demand = (i < hd_count)\<rparr> t3 = Done p t'"
      by (simp only: option.case prod.case Let_def) (blast dest: bnd_DoneD)
    then show ?thesis by (auto dest: ret_DoneD)
  qed
qed

lemma high_demand_count_div: "high_demand_count cfg = TOTAL_PRODUCTS cfg div 5"
proof -
  have "real (TOTAL_PRODUCTS cfg) * 0.2 = real (TOTAL_PRODUCTS cfg) / real 5" by simp
  then have "\<lfloor>real (TOTAL_PRODUCTS cfg) * 0.2\<rfloor> = int (TOTAL_PRODUCTS cfg div 5)"
    by (simp only: floor_divide_of_nat_eq)
  then show ?thesis by (simp add: high_demand_count_def)
qed

lemma generate_products_flags:
  assumes "generate_products cfg t = Done ps t'"
  shows "length ps = TOTAL_PRODUCTS cfg
       \<and> (\<forall>i < TOTAL_PRODUCTS cfg. is_high_demand (ps ! i) = (i < TOTAL_PRODUCTS cfg div 5))"
proof -
  let ?body = "generate_product (high_demand_count cfg)"
  from assms for_range_result [of "[0..<TOTAL_PRODUCTS cfg]" ?body "[]" t ps t']
  have all: "list_all2 (\<lambda>i y. \<exists>t1 t2. ?body i t1 = Done y t2) [0..<TOTAL_PRODUCTS cfg] ps"
    by (auto simp: generate_products_def)
  then have len: "length ps = TOTAL_PRODUCTS cfg"
    by (auto dest: list_all2_lengthD)
  have "is_high_demand (ps ! i) = (i < TOTAL_PRODUCTS cfg div 5)" if "i < TOTAL_PRODUCTS cfg" for i
  proof -
    from all that have "\<exists>t1 t2. ?body ([0..<TOTAL_PRODUCTS cfg] ! i) t1 = Done (ps ! i) t2"
      by (simp add: list_all2_conv_all_nth)
    with that show ?thesis
      by (auto dest: generate_product_flag simp: high_demand_count_div)
  qed
  with len show ?thesis by blast
qed

lemma count_flagged_prefix:
  "length xs = m \<Longrightarrow> \<forall>i < m. P (xs ! i) = (i < h) \<Longrightarrow> length (filter P xs) = min h m"
proof (induction xs arbitrary: m rule: rev_induct)
  case Nil
  then show ?case by simp
next
  case (snoc x xs)
  then obtain m' where m: "m = Suc m'" "length xs = m'" by auto
  from snoc.prems m have "\<forall>i < m'. P (xs ! i) = (i < h)"
    by (metis less_Suc_eq nth_append)
  with snoc.IH m have ih: "length (filter P xs) = min h m'" by blast
  from snoc.prems m have "P x = (m' < h)"
    by (metis lessI nth_append_length)
  with ih m show ?case by auto
qed

lemma for_range_returns:
  assumes "\<And>i t. i \<in> set is \<Longrightarrow> n \<le> length t \<Longrightarrow> \<exists>x. body i t = Done x (drop n t)"
  shows "n * length is \<le> length t \<Longrightarrow>
           \<exists>xs. for_range is body acc t = Done xs (drop (n * length is) t)"
  using assms
proof (induction "is" arbitrary: acc t)
  case Nil
  then show ?case by simp
next
  case (Cons i rest)
  from Cons.prems(1) have n: "n \<le> length t" by simp
  with Cons.prems(2) [of i t] obtain x where step: "body i t = Done x (drop n t)" by auto
  from Cons.prems(1) have "n * length rest \<le> length (drop n t)" by simp
  from Cons.IH [OF this, of "acc @ [x]"] Cons.prems(2)
  obtain xs where "for_range rest body (acc @ [x]) (drop n t)
      = Done xs (drop (n * length rest) (drop n t))"
    by auto
  with step show ?case by (simp add: add.commute)
qed

lemma categories_distinct: "distinct (map fst PRODUCT_CATEGORIES)"
  by (simp add: PRODUCT_CATEGORIES_def)

lemma categories_items: "\<forall>e \<in> set PRODUCT_CATEGORIES. snd (snd e) \<noteq> []"
  by (simp add: PRODUCT_CATEGORIES_def)

lemma categories_nonempty: "PRODUCT_CATEGORIES \<noteq> []"
  by (simp add: PRODUCT_CATEGORIES_def)

lemma generate_product_returns:
  assumes "3 \<le> length t"
  shows "\<exists>p. generate_product hd_count i t = Done p (drop 3 t)"
proof -
  from assms obtain k1 k2 k3 rest where t: "t = k1 # k2 # k3 # rest"
    by (cases t; cases "tl t"; cases "tl (tl t)") auto
  let ?e = "PRODUCT_CATEGORIES ! (k1 mod length PRODUCT_CATEGORIES)"
  have idx: "k1 mod length PRODUCT_CATEGORIES < length PRODUCT_CATEGORIES"
    using categories_nonempty by simp
  then have mem: "?e \<in> set PRODUCT_CATEGORIES" by simp
  obtain c lo hi items where e: "?e = (c, (lo, hi), items)"
    by (cases ?e) auto
  from mem e categories_distinct have look: "map_of PRODUCT_CATEGORIES c = Some ((lo, hi), items)"
    by (metis map_of_is_SomeI)
  from mem e categories_items have items: "items \<noteq> []" by force
  from idx e have pick: "map fst PRODUCT_CATEGORIES ! (k1 mod length PRODUCT_CATEGORIES) = c"
    by simp
  show ?thesis
    unfolding generate_product_def t
    using categories_nonempty pick look items
    by (simp add: bnd_def ret_def random_uniform_def Let_def)
qed

lemma generate_products_returns:
  assumes "3 * TOTAL_PRODUCTS cfg \<le> length t"
  shows "\<exists>ps. generate_products cfg t = Done ps (drop (3 * TOTAL_PRODUCTS cfg) t)"
  unfolding generate_products_def
  using for_range_returns [of "[0..<TOTAL_PRODUCTS cfg]" 3
      "generate_product (high_demand_count cfg)" t "[]"] assms
  by (simp add: generate_product_returns)

text \<open>
  Claim C3, amended. The source computes \<^verbatim>\<open>int(TOTAL_PRODUCTS * 0.2)\<close>, which
  truncates: for every catalog size M, \<open>_generate_products\<close> (given the three draws it
  takes per product) returns M products and flags exactly \<open>M div 5\<close> of them (the
  floor of 0.2 M, not the ceiling), namely those at the generation-order positions
  \<open>0 .. M div 5 - 1\<close>, and no others.
\<close>

theorem high_demand_positional:
  assumes "3 * TOTAL_PRODUCTS cfg \<le> length t"
  shows "\<exists>ps t'. generate_products cfg t = Done ps t'
       \<and> length ps = TOTAL_PRODUCTS cfg
       \<and> (\<forall>i < TOTAL_PRODUCTS cfg. is_high_demand (ps ! i) = (i < TOTAL_PRODUCTS cfg div 5))
       \<and> length (filter is_high_demand ps) = TOTAL_PRODUCTS cfg div 5"
proof -
  from generate_products_returns [OF assms] obtain ps t' where
    run: "generate_products cfg t = Done ps t'" by blast
  note flags = generate_products_flags [OF run]
  then have "length (filter is_high_demand ps) = min (TOTAL_PRODUCTS cfg div 5) (TOTAL_PRODUCTS cfg)"
    using count_flagged_prefix [of ps "TOTAL_PRODUCTS cfg" is_high_demand "TOTAL_PRODUCTS cfg div 5"]
    by blast
  with flags have "length (filter is_high_demand ps) = TOTAL_PRODUCTS cfg div 5" by simp
  with run flags show ?thesis by blast
qed

lemma replicate_numeral_unfold:
  "replicate (numeral k) x = x # replicate (pred_numeral k) x"
  by (simp add: numeral_eq_Suc)

lemmas eval_products = generate_products_def high_demand_count_def default_config_def
  generate_product_def bnd_def ret_def PRODUCT_CATEGORIES_def random_uniform_def
  py_round_def zfill_def digit_char_def str_nat.simps upt_rec replicate_numeral_unfold

text \<open>A catalog of five products, generated from fifteen draws.\<close>

theorem high_demand_positional_witness:
  "3 * TOTAL_PRODUCTS (default_config\<lparr>TOTAL_PRODUCTS := 5\<rparr>)
     \<le> length [7, 1, 1, 1, 2, 0, 3, 3, 0, 0, 0, 0, 9, 4, 0 :: nat]
   \<and> (\<exists>ps t'. generate_products (default_config\<lparr>TOTAL_PRODUCTS := 5\<rparr>)
          [7, 1, 1, 1, 2, 0, 3, 3, 0, 0, 0, 0, 9, 4, 0] = Done ps t'
        \<and> length ps = 5 \<and> is_high_demand (ps ! 0) \<and> \<not> is_high_demand (ps ! 1)
        \<and> length (filter is_high_demand ps) = 1)"
proof -
  have draws: "3 * TOTAL_PRODUCTS (default_config\<lparr>TOTAL_PRODUCTS := 5\<rparr>)
     \<le> length [7, 1, 1, 1, 2, 0, 3, 3, 0, 0, 0, 0, 9, 4, 0 :: nat]"
    by simp
  from high_demand_positional [OF draws] obtain ps t' where
    "generate_products (default_config\<lparr>TOTAL_PRODUCTS := 5\<rparr>)
          [7, 1, 1, 1, 2, 0, 3, 3, 0, 0, 0, 0, 9, 4, 0] = Done ps t'"
    "length ps = 5"
    "\<forall>i < 5. is_high_demand (ps ! i) = (i < 1)"
    "length (filter is_high_demand ps) = 1"
    by auto
  then have "generate_products (default_config\<lparr>TOTAL_PRODUCTS := 5\<rparr>)
          [7, 1, 1, 1, 2, 0, 3, 3, 0, 0, 0, 0, 9, 4, 0] = Done ps t'
        \<and> length ps = 5 \<and> is_high_demand (ps ! 0) \<and> \<not> is_high_demand (ps ! 1)
        \<and> length (filter is_high_demand ps) = 1"
    by simp
  with draws show ?thesis by blast
qed

text \<open>
  The claim as stated fails for a catalog of one product: the ceiling of 0.2 is 1, but
  the only product generated is not flagged.
\<close>

theorem high_demand_ceil_counterexample:
  "generate_products (default_config\<lparr>TOTAL_PRODUCTS := 1\<rparr>) [0, 0, 0]
     = Done [\<lparr>prod_id = ''PROD_0001'', prod_name = ''Whole Milk 1'', category = ''Dairy'',
              base_price = 2.99, is_high_demand = False\<rparr>] []
   \<and> \<lceil>0.2 * real 1\<rceil> = 1"
  by (simp add: eval_products ceiling_eq_iff)

section \<open>The high-demand selection branch\<close>

lemma random_choice_Raise:
  "random_choice seq t = Raise e \<Longrightarrow> seq = []"
  by (cases t) (auto split: if_splits)

lemma select_product_Raise:
  "select_product ps t = Raise e \<Longrightarrow> ps = [] \<or> filter is_high_demand ps = []"
  by (cases t) (auto simp: select_product_def bnd_def split: if_splits dest: random_choice_Raise)

lemma select_product_Done:
  "ps \<noteq> [] \<Longrightarrow> filter is_high_demand ps \<noteq> [] \<Longrightarrow>
     \<exists>p. select_product ps (k1 # k2 # t) = Done p t"
  by (simp add: select_product_def bnd_def)

text \<open>
  Claim C4, amended. For every catalog size \<open>M \<ge> 5\<close> the catalog that
  \<open>_generate_products\<close> returns has a non-empty set of products flagged high-demand
  (it has \<open>M div 5\<close> elements), so the random choice over the high-demand subset
  never raises, the selection step of \<open>generate_transaction\<close> raises nothing, and it
  returns a product whenever two draws are left. (For \<open>1 \<le> M \<le> 4\<close> the subset is
  empty.)
\<close>

theorem high_demand_choice_safe:
  assumes "5 \<le> TOTAL_PRODUCTS cfg" and "3 * TOTAL_PRODUCTS cfg \<le> length t"
  shows "\<exists>ps t'. generate_products cfg t = Done ps t'
       \<and> filter is_high_demand ps \<noteq> []
       \<and> (\<forall>t2 e. random_choice (filter is_high_demand ps) t2 \<noteq> Raise e)
       \<and> (\<forall>t2 e. select_product ps t2 \<noteq> Raise e)
       \<and> (\<forall>k1 k2 t2. \<exists>p. select_product ps (k1 # k2 # t2) = Done p t2)"
proof -
  from generate_products_returns [OF assms(2)] obtain ps t' where
    run: "generate_products cfg t = Done ps t'" by blast
  from generate_products_flags [OF run] assms(1)
  have len: "length ps = TOTAL_PRODUCTS cfg" and first: "is_high_demand (ps ! 0)"
    by auto
  from len assms(1) have ne: "ps \<noteq> []" by auto
  then have "ps ! 0 \<in> set ps" by simp
  with first have hd: "filter is_high_demand ps \<noteq> []"
    by (auto simp: filter_empty_conv)
  from hd have choice: "\<forall>t2 e. random_choice (filter is_high_demand ps) t2 \<noteq> Raise e"
    by (auto dest: random_choice_Raise)
  from ne hd have sel: "\<forall>t2 e. select_product ps t2 \<noteq> Raise e"
    by (auto dest: select_product_Raise)
  from ne hd have "\<forall>k1 k2 t2. \<exists>p. select_product ps (k1 # k2 # t2) = Done p t2"
    by (simp add: select_product_Done)
  with run hd choice sel show ?thesis by blast
qed

theorem high_demand_choice_safe_witness:
  "5 \<le> TOTAL_PRODUCTS (default_config\<lparr>TOTAL_PRODUCTS := 5\<rparr>)
   \<and> 3 * TOTAL_PRODUCTS (default_config\<lparr>TOTAL_PRODUCTS := 5\<rparr>)
       \<le> length [7, 1, 1, 1, 2, 0, 3, 3, 0, 0, 0, 0, 9, 4, 0 :: nat]
   \<and> (\<exists>ps t'. generate_products (default_config\<lparr>TOTAL_PRODUCTS := 5\<rparr>)
          [7, 1, 1, 1, 2, 0, 3, 3, 0, 0, 0, 0, 9, 4, 0] = Done ps t'
        \<and> filter is_high_demand ps \<noteq> []
        \<and> (\<exists>p. select_product ps [0, 0] = Done p []))"
proof -
  have five: "5 \<le> TOTAL_PRODUCTS (default_config\<lparr>TOTAL_PRODUCTS := 5\<rparr>)" by simp
  have draws: "3 * TOTAL_PRODUCTS (default_config\<lparr>TOTAL_PRODUCTS := 5\<rparr>)
     \<le> length [7, 1, 1, 1, 2, 0, 3, 3, 0, 0, 0, 0, 9, 4, 0 :: nat]"
    by simp
  from high_demand_choice_safe [OF five draws]
  have "\<exists>ps t'. generate_products (default_config\<lparr>TOTAL_PRODUCTS := 5\<rparr>)
          [7, 1, 1, 1, 2, 0, 3, 3, 0, 0, 0, 0, 9, 4, 0] = Done ps t'
        \<and> filter is_high_demand ps \<noteq> []
        \<and> (\<exists>p. select_product ps [0, 0] = Done p [])"
    by blast
  with five draws show ?thesis by blast
qed

text \<open>
  The claim as stated fails for a catalog of one product: no product is flagged, and a
  basket slot whose first draw is below 0.3 raises IndexError.
\<close>

theorem high_demand_empty_counterexample:
  "generate_products (default_config\<lparr>TOTAL_PRODUCTS := 1\<rparr>) [0, 0, 0]
     = Done [\<lparr>prod_id = ''PROD_0001'', prod_name = ''Whole Milk 1'', category = ''Dairy'',
              base_price = 2.99, is_high_demand = False\<rparr>] []
   \<and> filter is_high_demand
        [\<lparr>prod_id = ''PROD_0001'', prod_name = ''Whole Milk 1'', category = ''Dairy'',
          base_price = 2.99, is_high_demand = False\<rparr>] = []
   \<and> select_product
        [\<lparr>prod_id = ''PROD_0001'', prod_name = ''Whole Milk 1'', category = ''Dairy'',
          base_price = 2.99, is_high_demand = False\<rparr>] [0] = Raise IndexError"
  by (simp add: eval_products select_product_def)

section \<open>Holiday weeks and the date-acceptance chain\<close>

lemmas eval_datetime = datetime_def ymd2ord_def days_before_year_def days_before_month_def
  is_leap_def

lemma holiday_midnights:
  "datetime 2023 1 1 0 0 0 = 63808214400"
  "datetime 2023 12 25 0 0 0 = 63839145600"
  "datetime 2023 11 23 0 0 0 = 63836380800"
  "datetime 2023 7 4 0 0 0 = 63824112000"
  "datetime 2023 5 29 0 0 0 = 63821001600"
  "datetime 2023 9 4 0 0 0 = 63829468800"
  by (simp_all add: eval_datetime)

lemma holiday_weeks_values:
  "get_holiday_weeks =
     [(63807696000, 63808214400), (63839145600, 63839664000), (63836121600, 63836640000),
      (63824025600, 63824544000), (63821001600, 63821520000), (63829468800, 63829987200)]"
  unfolding get_holiday_weeks_def holidays_def list.map holiday_week_def prod.case
    holiday_midnights Let_def weekday_def toordinal_def timedelta_days_def
  by simp

lemma other_dates:
  "datetime 2022 12 26 0 0 0 = 63807696000"
  "datetime 2023 1 1 12 0 0 = 63808257600"
  "datetime 2023 1 7 0 0 0 = 63808732800"
  "datetime 2023 12 31 0 0 0 = 63839664000"
  by (simp_all add: eval_datetime)

text \<open>
  Claim C5: the holiday-week test is meant to cover the whole Monday-through-Sunday
  week of each holiday. The code ends the week at midnight that begins its Sunday
  (\<open>week_start + 6 days\<close>) and compares datetimes, so of the Sunday only the first
  instant is inside. New Year's Day 2023 is a Sunday (\<open>weekday = 6\<close>): its week runs
  from Monday 2022-12-26 00:00:00 to 2023-01-01 00:00:00, midnight of the holiday is
  classified as in a holiday week, and noon of the holiday itself is not.
\<close>

theorem new_years_day_outside_holiday_week:
  "weekday (datetime 2023 1 1 0 0 0) = 6
   \<and> holiday_week (2023, 1, 1) = (datetime 2022 12 26 0 0 0, datetime 2023 1 1 0 0 0)
   \<and> is_holiday_week \<lparr>customers = [], products = [], holiday_weeks = get_holiday_weeks\<rparr>
        (datetime 2023 1 1 0 0 0) = True
   \<and> is_holiday_week \<lparr>customers = [], products = [], holiday_weeks = get_holiday_weeks\<rparr>
        (datetime 2023 1 1 12 0 0) = False"
  unfolding is_holiday_week_def holiday_weeks_values holiday_week_def prod.case
    holiday_midnights other_dates Let_def weekday_def toordinal_def timedelta_days_def
  by simp

text \<open>
  Claim C6, amended. A candidate is put to up to three accept/reject draws, in this
  order: when it is a weekend date, a draw that accepts below 0.3; when it is not yet
  accepted and lies in a holiday week, a draw that accepts below 0.2; when it is not
  yet accepted, whatever its class, a draw that accepts below 0.5. A candidate that no
  draw accepted is drawn again. So a weekend candidate whose own draw rejects is
  treated from there on like a candidate that is not a weekend date, and its
  acceptance does depend on the 0.5 draw.
\<close>

theorem date_acceptance_chain:
  "date_accepted True h
     = bnd random_random (\<lambda>r. if r < 0.3 then ret True else date_accepted False h)
   \<and> date_accepted False True
     = bnd random_random (\<lambda>r. if r < 0.2 then ret True else date_accepted False False)
   \<and> date_accepted False False = bnd random_random (\<lambda>r. ret (r < 0.5))
   \<and> draw_transaction_date g
     = bnd (random_randint 0 (end_date - start_date)) (\<lambda>s.
         bnd (date_accepted (5 \<le> weekday (start_date + timedelta_seconds s))
                (is_holiday_week g (start_date + timedelta_seconds s)))
           (\<lambda>accepted. if accepted then ret (start_date + timedelta_seconds s)
                        else draw_transaction_date g))"
proof -
  have weekend: "date_accepted True h t
     = bnd random_random (\<lambda>r. if r < 0.3 then ret True else date_accepted False h) t" for t
    by (cases t) (simp_all add: date_accepted_def bnd_def ret_def)
  have holiday: "date_accepted False True t
     = bnd random_random (\<lambda>r. if r < 0.2 then ret True else date_accepted False False) t" for t
    by (cases t) (simp_all add: date_accepted_def bnd_def ret_def)
  have regular: "date_accepted False False t = bnd random_random (\<lambda>r. ret (r < 0.5)) t" for t
    by (cases t) (simp_all add: date_accepted_def bnd_def ret_def)
  have loop: "draw_transaction_date g t
     = bnd (random_randint 0 (end_date - start_date)) (\<lambda>s.
         bnd (date_accepted (5 \<le> weekday (start_date + timedelta_seconds s))
                (is_holiday_week g (start_date + timedelta_seconds s)))
           (\<lambda>accepted. if accepted then ret (start_date + timedelta_seconds s)
                        else draw_transaction_date g)) t" for t
    by (subst draw_transaction_date.simps)
       (simp add: bnd_def ret_def Let_def split: run.splits)
  from weekend holiday regular loop show ?thesis by (intro conjI ext)
qed

text \<open>
  The claim as stated fails: Saturday 2023-01-07 00:00:00 is a weekend date outside
  every holiday week; its weekend draw is 0.5 (not below 0.3), and the third draw of
  the chain (0.0, below 0.5) accepts it: the loop returns this candidate instead of
  drawing another one.
\<close>

theorem weekend_candidate_counterexample:
  "weekday (datetime 2023 1 7 0 0 0) = 5
   \<and> is_holiday_week \<lparr>customers = [], products = [], holiday_weeks = get_holiday_weeks\<rparr>
        (datetime 2023 1 7 0 0 0) = False
   \<and> random_random [4503599627370496] = Done (1 / 2) []
   \<and> date_accepted True False [4503599627370496, 0] = Done True []
   \<and> draw_transaction_date \<lparr>customers = [], products = [], holiday_weeks = get_holiday_weeks\<rparr>
        [518400, 4503599627370496, 0] = Done (datetime 2023 1 7 0 0 0) []"
  unfolding draw_transaction_date.simps [of _ "[518400, 4503599627370496, 0]"]
    is_holiday_week_def holiday_weeks_values start_date_def end_date_def
    holiday_midnights other_dates Let_def weekday_def toordinal_def timedelta_seconds_def
  by (simp add: date_accepted_def bnd_def ret_def)

section \<open>Transactions and their rows\<close>

lemma bnd_DoneE:
  assumes "bnd m f t = Done y t'"
  obtains x t1 where "m t = Done x t1" and "f x t1 = Done y t'"
  using assms by (blast dest: bnd_DoneD)

lemma for_range_members:
  assumes "for_range is body [] t = Done xs t'" and "x \<in> set xs"
  shows "\<exists>i t1 t2. body i t1 = Done x t2"
proof -
  from for_range_result [OF assms(1)]
  have all: "list_all2 (\<lambda>i y. \<exists>t1 t2. body i t1 = Done y t2) is xs" by simp
  from assms(2) obtain j where "j < length xs" "xs ! j = x"
    by (auto simp: in_set_conv_nth)
  with all have "\<exists>t1 t2. body (is ! j) t1 = Done x t2"
    by (auto simp: list_all2_conv_all_nth)
  then show ?thesis by blast
qed

lemma random_randint_range:
  "random_randint a b t = Done x t' \<Longrightarrow> a \<le> x \<and> x \<le> b"
proof (cases t)
  case Nil
  then show "random_randint a b t = Done x t' \<Longrightarrow> a \<le> x \<and> x \<le> b"
    by (simp split: if_splits)
next
  case (Cons k rest)
  assume run: "random_randint a b t = Done x t'"
  with Cons have ab: "a \<le> b" and x: "x = a + int (k mod nat (b - a + 1))"
    by (auto split: if_splits)
  from ab have "0 < nat (b - a + 1)" by simp
  then have "k mod nat (b - a + 1) < nat (b - a + 1)" by (rule mod_less_divisor)
  with ab x show "a \<le> x \<and> x \<le> b" by linarith
qed

lemma random_choice_mem:
  "random_choice seq t = Done x t' \<Longrightarrow> x \<in> set seq"
  by (cases t) (auto split: if_splits)

lemma draw_quantity_range:
  "draw_quantity t = Done q t' \<Longrightarrow> 1 \<le> q \<and> q \<le> 100"
  unfolding draw_quantity_def
  by (elim bnd_DoneE) (auto split: if_splits dest!: random_randint_range ret_DoneD)

lemma basket_item_quantity:
  "basket_item g i t = Done it t' \<Longrightarrow> 1 \<le> item_quantity it \<and> item_quantity it \<le> 100"
  unfolding basket_item_def
  by (elim bnd_DoneE) (auto dest!: ret_DoneD draw_quantity_range)

lemma generate_transaction_items:
  assumes "generate_transaction g t = Done txn t'" and "it \<in> set (txn_products txn)"
  shows "1 \<le> item_quantity it \<and> item_quantity it \<le> 100"
proof -
  from assms(1) obtain n t3 t4 where
    "for_range [0..<n] (basket_item g) [] t3 = Done (txn_products txn) t4"
    unfolding generate_transaction_def Let_def
    by (elim bnd_DoneE) (auto dest!: ret_DoneD)
  from for_range_members [OF this assms(2)] show ?thesis
    by (auto dest: basket_item_quantity)
qed

lemma generate_transaction_discount:
  assumes "generate_transaction g t = Done txn t'"
  shows "txn_discount_applied txn = 0 \<or> txn_discount_applied txn \<in> set DISCOUNT_RATES"
  using assms unfolding generate_transaction_def Let_def
  by (elim bnd_DoneE) (auto split: if_splits dest!: ret_DoneD random_choice_mem)

lemma flatten_row_fields:
  "quantity (flatten_row txn it) = item_quantity it"
  "unit_price (flatten_row txn it) = base_price (item_product it)"
  "discount_applied (flatten_row txn it) = txn_discount_applied txn"
  "total_price (flatten_row txn it) =
     py_round (real_of_int (item_quantity it) * base_price (item_product it)
               * (1 - txn_discount_applied txn)) 2"
  by (simp_all add: flatten_row_def Let_def)

lemma generate_rows_origin:
  "generate_rows g n acc t = Done rows t' \<Longrightarrow> l \<in> set rows \<Longrightarrow>
     l \<in> set acc \<or> (\<exists>txn it t1 t2. generate_transaction g t1 = Done txn t2
                        \<and> it \<in> set (txn_products txn) \<and> l = flatten_row txn it)"
proof (induction n arbitrary: acc t)
  case 0
  then show ?case by simp
next
  case (Suc n)
  from Suc.prems(1) obtain txn t1 where
    step: "generate_transaction g t = Done txn t1" and
    tail: "generate_rows g n (acc @ flatten txn) t1 = Done rows t'"
    by (auto split: run.splits)
  from Suc.IH [OF tail Suc.prems(2)]
  consider "l \<in> set acc" | "l \<in> set (flatten txn)"
    | "\<exists>txn it t1 t2. generate_transaction g t1 = Done txn t2
          \<and> it \<in> set (txn_products txn) \<and> l = flatten_row txn it"
    by auto
  then show ?case
  proof cases
    case 2
    then obtain it where "it \<in> set (txn_products txn)" "l = flatten_row txn it"
      by (auto simp: flatten_def)
    with step show ?thesis by blast
  qed blast+
qed

lemma generate_dataset_rows:
  assumes "generate_dataset cfg g t = Done files t'"
  shows "generate_rows g (TOTAL_TRANSACTIONS cfg) [] t = Done (concat files) t'"
proof -
  from assms obtain df t1 where
    rows: "generate_rows g (TOTAL_TRANSACTIONS cfg) [] t = Done df t1" and
    split: "(case split_files df (FILES_TO_SPLIT cfg) of
               Inl e \<Rightarrow> (\<lambda>t. Raise e) | Inr files \<Rightarrow> ret files) t1 = Done files t'"
    unfolding generate_dataset_def by (elim bnd_DoneE)
  from split have "split_files df (FILES_TO_SPLIT cfg) = Inr files \<and> t1 = t'"
    by (auto split: sum.splits dest: ret_DoneD)
  with rows show ?thesis by (auto dest: split_files_concat)
qed

lemma example_date:
  "holiday_weeks g = get_holiday_weeks \<Longrightarrow>
     draw_transaction_date g (172800 # 0 # rest) = Done 63808387200 rest"
  unfolding draw_transaction_date.simps [of _ "172800 # 0 # rest"]
    is_holiday_week_def holiday_weeks_values start_date_def end_date_def
    holiday_midnights other_dates Let_def weekday_def toordinal_def timedelta_seconds_def
  by (simp add: date_accepted_def bnd_def ret_def)

lemmas eval_transaction = generate_transaction_def example_generator_def example_draws_def
  example_date bnd_def ret_def basket_item_def select_product_def draw_quantity_def
  DISCOUNT_RATES_def STORE_LOCATIONS_def PAYMENT_METHODS_def random_choices_def bisect_def
  upt_rec Let_def

lemma example_transaction:
  "generate_transaction example_generator example_draws = Done example_txn []"
  by (simp add: eval_transaction example_txn_def)

lemma example_rows:
  "generate_rows example_generator 1 [] example_draws
     = Done [example_row_milk, example_row_bagels] []"
  by (simp add: eval_transaction flatten_def flatten_row_def py_round_def
      example_row_milk_def example_row_bagels_def)

text \<open>
  Claim C1. Every row appended by the transaction loop of \<open>generate_dataset\<close>
  stores \<open>total_price = round(quantity * unit_price * (1 - discount_applied), 2)\<close>,
  where the row's quantity and unit price are those of a basket item of a generated
  transaction (the unit price being the product's base price) and its discount is that
  transaction's discount: the total is a function of these three fields of the row.
\<close>

theorem total_price_recomputed:
  assumes "generate_rows g n [] t = Done rows t'" and "l \<in> set rows"
  shows "total_price l
           = py_round (real_of_int (quantity l) * unit_price l * (1 - discount_applied l)) 2
       \<and> (\<exists>txn it t1 t2. generate_transaction g t1 = Done txn t2
             \<and> it \<in> set (txn_products txn)
             \<and> quantity l = item_quantity it
             \<and> unit_price l = base_price (item_product it)
             \<and> discount_applied l = txn_discount_applied txn)"
proof -
  from generate_rows_origin [OF assms] obtain txn it t1 t2 where
    src: "generate_transaction g t1 = Done txn t2" "it \<in> set (txn_products txn)"
    and l: "l = flatten_row txn it"
    by auto
  from l have "total_price l
           = py_round (real_of_int (quantity l) * unit_price l * (1 - discount_applied l)) 2"
    by (simp add: flatten_row_fields)
  moreover from l have "quantity l = item_quantity it
      \<and> unit_price l = base_price (item_product it)
      \<and> discount_applied l = txn_discount_applied txn"
    by (simp add: flatten_row_fields)
  ultimately show ?thesis using src by blast
qed

theorem total_price_recomputed_witness:
  "generate_rows example_generator 1 [] example_draws
     = Done [example_row_milk, example_row_bagels] []
   \<and> total_price example_row_milk
       = py_round (real_of_int (quantity example_row_milk) * unit_price example_row_milk
                   * (1 - discount_applied example_row_milk)) 2
   \<and> total_price example_row_milk = 7.62"
proof -
  have mem: "example_row_milk \<in> set [example_row_milk, example_row_bagels]" by simp
  from total_price_recomputed [OF example_rows mem]
  have "total_price example_row_milk
       = py_round (real_of_int (quantity example_row_milk) * unit_price example_row_milk
                   * (1 - discount_applied example_row_milk)) 2"
    by blast
  moreover have "total_price example_row_milk = 7.62"
    by (simp add: example_row_milk_def)
  ultimately show ?thesis using example_rows by blast
qed

text \<open>
  Claim C7. The discount of every generated transaction is 0 or one of 0.05, 0.10 and
  0.15, and every row flattened from the transaction carries that same discount.
\<close>

theorem discount_transaction_level:
  assumes "generate_transaction g t = Done txn t'"
  shows "txn_discount_applied txn \<in> {0, 0.05, 0.10, 0.15}
       \<and> (\<forall>l \<in> set (flatten txn). discount_applied l = txn_discount_applied txn)"
proof -
  from generate_transaction_discount [OF assms]
  have "txn_discount_applied txn \<in> {0, 0.05, 0.10, 0.15}"
    by (auto simp: DISCOUNT_RATES_def)
  moreover have "\<forall>l \<in> set (flatten txn). discount_applied l = txn_discount_applied txn"
    by (auto simp: flatten_def flatten_row_fields)
  ultimately show ?thesis by blast
qed

theorem discount_transaction_level_witness:
  "generate_transaction example_generator example_draws = Done example_txn []
   \<and> txn_discount_applied example_txn \<in> {0, 0.05, 0.10, 0.15}
   \<and> txn_discount_applied example_txn = 0.15
   \<and> map discount_applied (flatten example_txn) = [0.15, 0.15]"
proof -
  from discount_transaction_level [OF example_transaction]
  have "txn_discount_applied example_txn \<in> {0, 0.05, 0.10, 0.15}" by blast
  moreover have "txn_discount_applied example_txn = 0.15"
    by (simp add: example_txn_def)
  moreover have "map discount_applied (flatten example_txn) = [0.15, 0.15]"
    by (simp add: example_txn_def flatten_def flatten_row_fields)
  ultimately show ?thesis using example_transaction by blast
qed

text \<open>
  Claim C10. Every row appended by the transaction loop of \<open>generate_dataset\<close> has
  a quantity between 1 and 100: the quantity of a basket item is the first draw from
  1..10, or the override from 6..10, or the override from 50..100.
\<close>

theorem quantity_in_range:
  assumes "generate_rows g n [] t = Done rows t'" and "l \<in> set rows"
  shows "1 \<le> quantity l \<and> quantity l \<le> 100"
proof -
  from generate_rows_origin [OF assms] obtain txn it t1 t2 where
    src: "generate_transaction g t1 = Done txn t2" "it \<in> set (txn_products txn)"
    and l: "l = flatten_row txn it"
    by auto
  from generate_transaction_items [OF src] l show ?thesis
    by (simp add: flatten_row_fields)
qed

theorem quantity_in_range_witness:
  "generate_rows example_generator 1 [] example_draws
     = Done [example_row_milk, example_row_bagels] []
   \<and> 1 \<le> quantity example_row_bagels \<and> quantity example_row_bagels \<le> 100
   \<and> quantity example_row_bagels = 7"
proof -
  have mem: "example_row_bagels \<in> set [example_row_milk, example_row_bagels]" by simp
  from quantity_in_range [OF example_rows mem]
  have "1 \<le> quantity example_row_bagels \<and> quantity example_row_bagels \<le> 100" .
  moreover have "quantity example_row_bagels = 7"
    by (simp add: example_row_bagels_def)
  ultimately show ?thesis using example_rows by blast
qed

section \<open>Anomaly z-scores\<close>

lemma product_stats_stat_of:
  "product_stats df = map (stat_of df) (remdups (map product_id df))"
  by (simp add: product_stats_def groupby_def stat_of_def product_rows_def comp_def)

lemma filter_unique_key:
  assumes "\<And>k. key (g k) = k"
  shows "distinct ks \<Longrightarrow> k \<in> set ks \<Longrightarrow> filter (\<lambda>s. key s = k) (map g ks) = [g k]"
proof (induction ks)
  case Nil
  then show ?case by simp
next
  case (Cons a ks)
  show ?case
  proof (cases "a = k")
    case True
    with Cons.prems have "k \<notin> set ks" by simp
    then have "filter (\<lambda>s. key s = k) (map g ks) = []"
      by (auto simp: filter_empty_conv assms)
    with True show ?thesis by (simp add: assms)
  next
    case False
    with Cons show ?thesis by (simp add: assms)
  qed
qed

lemma merge_row:
  assumes "l \<in> set df"
  shows "filter (\<lambda>s. stat_product_id s = product_id l) (product_stats df)
           = [stat_of df (product_id l)]"
proof -
  have key: "stat_product_id (stat_of df k) = k" for k by (simp add: stat_of_def)
  from assms have "product_id l \<in> set (remdups (map product_id df))" by simp
  with filter_unique_key [of stat_product_id "stat_of df", OF key distinct_remdups]
  show ?thesis by (simp only: product_stats_stat_of)
qed

lemma concat_map_singleton:
  "(\<And>x. x \<in> set xs \<Longrightarrow> f x = [g x]) \<Longrightarrow> concat (map f xs) = map g xs"
  by (induction xs) simp_all

lemma df_metrics_rows:
  "df_metrics df =
     map (\<lambda>l. (l, (stat_of df (product_id l))
                   \<lparr>qty_std := replace_0_1 (qty_std (stat_of df (product_id l))),
                    price_std := replace_0_1 (price_std (stat_of df (product_id l)))\<rparr>)) df"
proof -
  have "merge_on_product_id df (product_stats df)
      = map (\<lambda>l. (l, stat_of df (product_id l))) df"
    unfolding merge_on_product_id_def
    by (rule concat_map_singleton) (simp add: merge_row)
  then show ?thesis by (simp add: df_metrics_def)
qed

lemma sum_list_constant:
  "\<forall>x \<in> set xs. x = (q::real) \<Longrightarrow> sum_list xs = real (length xs) * q"
  by (induction xs) (simp_all add: algebra_simps)

lemma pd_mean_constant:
  assumes "xs \<noteq> []" and "\<forall>x \<in> set xs. x = q"
  shows "pd_mean xs = Fin q"
  using assms by (simp add: pd_mean_def sum_list_constant)

lemma pd_std_constant:
  assumes "2 \<le> length xs" and "\<forall>x \<in> set xs. x = q"
  shows "pd_std xs = Fin 0"
proof -
  from assms(1) have "xs \<noteq> []" by auto
  with assms(2) have mean: "sum_list xs / real (length xs) = q"
    by (simp add: sum_list_constant)
  from assms(2) have "\<forall>y \<in> set (map (\<lambda>x. (x - q)\<^sup>2) xs). y = 0" by auto
  then have "sum_list (map (\<lambda>x. (x - q)\<^sup>2) xs) = 0"
    using sum_list_constant [of "map (\<lambda>x. (x - q)\<^sup>2) xs" 0] by simp
  with assms(1) mean show ?thesis by (simp add: pd_std_def)
qed

lemma replace_0_1_nonzero: "replace_0_1 x \<noteq> Fin 0"
  by (simp add: replace_0_1_def)

text \<open>
  Claim C8, amended. In \<open>get_anomaly_metrics\<close>, for every row of the merged table:
  the divisor of its quantity (unit price) z-score is the sample standard deviation of
  the quantities (unit prices) of the rows of its product with an exact 0 replaced by
  1, so a standard deviation of exactly zero gives the divisor 1 and no divisor is
  zero; and when the product has at least two rows, all with the same quantity, the
  quantity z-score of the row is 0. (A product with a single row has the standard
  deviation NaN, which is not replaced.)
\<close>

theorem zero_std_replaced:
  assumes "r \<in> set (df_metrics df)"
  shows "fst r \<in> set df
       \<and> qty_std (snd r)
           = replace_0_1 (pd_std (map (\<lambda>l. real_of_int (quantity l))
                                      (product_rows df (product_id (fst r)))))
       \<and> price_std (snd r)
           = replace_0_1 (pd_std (map unit_price (product_rows df (product_id (fst r)))))
       \<and> (pd_std (map (\<lambda>l. real_of_int (quantity l))
                       (product_rows df (product_id (fst r)))) = Fin 0
            \<longrightarrow> qty_std (snd r) = Fin 1)
       \<and> (pd_std (map unit_price (product_rows df (product_id (fst r)))) = Fin 0
            \<longrightarrow> price_std (snd r) = Fin 1)
       \<and> qty_std (snd r) \<noteq> Fin 0 \<and> price_std (snd r) \<noteq> Fin 0
       \<and> (2 \<le> length (product_rows df (product_id (fst r)))
            \<and> (\<forall>l \<in> set (product_rows df (product_id (fst r))). quantity l = quantity (fst r))
          \<longrightarrow> quantity_zscore r = Fin 0)"
proof -
  let ?rows = "product_rows df (product_id (fst r))"
  let ?qs = "map (\<lambda>l. real_of_int (quantity l)) ?rows"
  from assms obtain l where l: "l \<in> set df" and r: "r = (l, (stat_of df (product_id l))
                   \<lparr>qty_std := replace_0_1 (qty_std (stat_of df (product_id l))),
                    price_std := replace_0_1 (price_std (stat_of df (product_id l)))\<rparr>)"
    by (auto simp: df_metrics_rows)
  from r have q: "qty_std (snd r) = replace_0_1 (pd_std ?qs)"
    and p: "price_std (snd r) = replace_0_1 (pd_std (map unit_price ?rows))"
    and m: "qty_mean (snd r) = pd_mean ?qs"
    by (simp_all add: stat_of_def)
  have z: "quantity_zscore r = Fin 0"
    if big: "2 \<le> length ?rows" and same: "\<forall>l \<in> set ?rows. quantity l = quantity (fst r)"
  proof -
    from big have ne: "?qs \<noteq> []" by auto
    from same have const: "\<forall>x \<in> set ?qs. x = real_of_int (quantity (fst r))" by auto
    from big have "2 \<le> length ?qs" by simp
    from pd_std_constant [OF this const] q have "qty_std (snd r) = Fin 1"
      by (simp add: replace_0_1_def)
    moreover from pd_mean_constant [OF ne const] m
    have "qty_mean (snd r) = Fin (real_of_int (quantity (fst r)))" by simp
    ultimately show ?thesis by (simp add: quantity_zscore_def)
  qed
  from l r have "fst r \<in> set df" by simp
  moreover from q p have "(pd_std ?qs = Fin 0 \<longrightarrow> qty_std (snd r) = Fin 1)
      \<and> (pd_std (map unit_price ?rows) = Fin 0 \<longrightarrow> price_std (snd r) = Fin 1)"
    by (simp add: replace_0_1_def)
  moreover from q p have "qty_std (snd r) \<noteq> Fin 0 \<and> price_std (snd r) \<noteq> Fin 0"
    by (simp add: replace_0_1_nonzero)
  ultimately show ?thesis using q p z by blast
qed

lemmas eval_anomaly = df_metrics_def merge_on_product_id_def product_stats_def groupby_def
  pd_mean_def pd_std_def replace_0_1_def quantity_zscore_def price_zscore_def visit_def Let_def

lemma constant_quantity_metrics:
  "df_metrics constant_quantity_table =
     [(visit 1 10 63808214400, constant_quantity_stat),
      (visit 2 11 63808300800, constant_quantity_stat)]"
  by (simp add: constant_quantity_table_def constant_quantity_stat_def eval_anomaly)

theorem zero_std_replaced_witness:
  "df_metrics constant_quantity_table =
     [(visit 1 10 63808214400, constant_quantity_stat),
      (visit 2 11 63808300800, constant_quantity_stat)]
   \<and> qty_std constant_quantity_stat = Fin 1
   \<and> quantity_zscore (visit 1 10 63808214400, constant_quantity_stat) = Fin 0"
proof -
  have mem: "(visit 1 10 63808214400, constant_quantity_stat)
      \<in> set (df_metrics constant_quantity_table)"
    by (simp add: constant_quantity_metrics)
  have rows: "product_rows constant_quantity_table
          (product_id (fst (visit 1 10 63808214400, constant_quantity_stat)))
        = constant_quantity_table"
    by (simp add: product_rows_def constant_quantity_table_def visit_def)
  have hyp: "2 \<le> length (product_rows constant_quantity_table
          (product_id (fst (visit 1 10 63808214400, constant_quantity_stat))))
      \<and> (\<forall>l \<in> set (product_rows constant_quantity_table
          (product_id (fst (visit 1 10 63808214400, constant_quantity_stat)))).
            quantity l = quantity (fst (visit 1 10 63808214400, constant_quantity_stat)))"
    unfolding rows by (simp add: constant_quantity_table_def visit_def)
  from zero_std_replaced [OF mem] hyp
  have "quantity_zscore (visit 1 10 63808214400, constant_quantity_stat) = Fin 0"
    by blast
  moreover have "qty_std constant_quantity_stat = Fin 1"
    by (simp add: constant_quantity_stat_def)
  ultimately show ?thesis using constant_quantity_metrics by blast
qed

text \<open>
  The claim as stated fails for a product with a single row: its quantity is constant
  across all its rows, the sample standard deviation of one value is NaN, NaN is not
  replaced, and the z-score of the row is NaN, not 0.
\<close>

theorem single_line_zscore_counterexample:
  "df_metrics [visit 1 10 63808214400]
     = [(visit 1 10 63808214400,
         \<lparr>stat_product_id = ''PROD_0001'', qty_mean = Fin 1, qty_std = NaN,
          price_mean = Fin 2.99, price_std = NaN\<rparr>)]
   \<and> map quantity_zscore (df_metrics [visit 1 10 63808214400]) = [NaN]"
  by (simp add: eval_anomaly)

text \<open>
  In \<^verbatim>\<open>create_anomaly_detection\<close> nothing replaces a zero standard deviation: on
  the same two rows both divisors are 0 and every z-score is 0 / 0.
\<close>

lemma detection_divides_by_zero:
  "map (\<lambda>r. qty_std (snd r)) (df_anomaly constant_quantity_table) = [Fin 0, Fin 0]
   \<and> map quantity_zscore (df_anomaly constant_quantity_table) = [NaN, NaN]
   \<and> map price_zscore (df_anomaly constant_quantity_table) = [NaN, NaN]"
  by (simp add: df_anomaly_def detection_stats_def constant_quantity_table_def eval_anomaly)

section \<open>Retention and churn\<close>

lemma length_filter_true: "length (filter (\<lambda>b. b) (map Q ys)) = length (filter Q ys)"
  by (induction ys) auto

lemma length_filter_remdups:
  "length (filter Q (remdups xs)) = card {x \<in> set xs. Q x}"
proof -
  have "distinct (filter Q (remdups xs))" by simp
  then have "card (set (filter Q (remdups xs))) = length (filter Q (remdups xs))"
    by (rule distinct_card)
  moreover have "set (filter Q (remdups xs)) = {x \<in> set xs. Q x}" by auto
  ultimately show ?thesis by simp
qed

lemma bool_mean_remdups:
  assumes "xs \<noteq> []"
  shows "bool_mean (map Q (remdups xs))
           = Fin (real (card {x \<in> set xs. Q x}) / real (card (set xs)))"
proof -
  from assms have "map Q (remdups xs) \<noteq> []" by simp
  then show ?thesis
    unfolding bool_mean_def
    by (simp only: if_False length_filter_true length_filter_remdups length_map
        length_remdups_card_conv)
qed

lemma int_le_div_iff:
  assumes "0 < (k::int)"
  shows "(n \<le> d div k) = (n * k \<le> d)"
proof
  assume "n \<le> d div k"
  with assms have "n * k \<le> d div k * k" by (simp add: mult_right_mono)
  also have "\<dots> = d - d mod k" by (simp add: minus_mod_eq_div_mult)
  also from assms have "\<dots> \<le> d" by simp
  finally show "n * k \<le> d" .
next
  assume "n * k \<le> d"
  then have "n * k div k \<le> d div k" using assms by (rule zdiv_mono1)
  with assms show "n \<le> d div k" by simp
qed

lemma whole_days_over_90: "(90 < timedelta_whole_days d) = (91 * 86400 \<le> d)"
proof -
  have "(90 < d div 86400) = (91 \<le> d div 86400)" by auto
  also have "\<dots> = (91 * 86400 \<le> d)" by (rule int_le_div_iff) simp
  finally show ?thesis by (simp only: timedelta_whole_days_def)
qed

lemma repeat_column:
  "map (\<lambda>n. 1 < n) (map (\<lambda>(c, rows). nunique (map transaction_id rows))
               (groupby customer_id df))
      = map (\<lambda>c. 1 < card (transaction_id ` rows_of df c)) (remdups (map customer_id df))"
  by (simp add: groupby_def nunique_def length_remdups_card_conv rows_of_def comp_def)

lemma churn_column:
  "map (\<lambda>d. 90 < d)
        (map (\<lambda>d. timedelta_whole_days (series_max (map transaction_datetime df) - d))
           (map (\<lambda>(c, rows). series_max (map transaction_datetime rows))
              (groupby customer_id df)))
      = map (\<lambda>c. 91 * 86400 \<le> Max (transaction_datetime ` set df)
                      - Max (transaction_datetime ` rows_of df c)) (remdups (map customer_id df))"
  by (simp add: groupby_def series_max_def rows_of_def comp_def whole_days_over_90)

text \<open>
  Claim C9, amended. For every non-empty table, \<open>get_retention_metrics\<close> returns as
  repeat-purchase rate 100 times the fraction of distinct customers with more than one
  distinct transaction id, and as churn risk 100 times the fraction of distinct
  customers whose latest transaction lies at least 91 days (more than 90 whole days,
  \<^verbatim>\<open>.dt.days > 90\<close>) before the latest transaction of the table.
\<close>

theorem retention_metrics_value:
  assumes "df \<noteq> []"
  shows "fst (get_retention_metrics df)
           = Fin (100 * (real (card {c \<in> customers_of df.
                                      1 < card (transaction_id ` rows_of df c)})
                         / real (card (customers_of df))))
       \<and> snd (snd (get_retention_metrics df))
           = Fin (100 * (real (card {c \<in> customers_of df.
                    91 * 86400 \<le> Max (transaction_datetime ` set df)
                                    - Max (transaction_datetime ` rows_of df c)})
                         / real (card (customers_of df))))"
proof -
  from assms have ne: "map customer_id df \<noteq> []" by simp
  have cs: "set (map customer_id df) = customers_of df" by (simp add: customers_of_def)
  from assms have "fst (get_retention_metrics df)
      = fmul (bool_mean (map (\<lambda>n. 1 < n) (map (\<lambda>(c, rows). nunique (map transaction_id rows))
               (groupby customer_id df)))) (Fin 100)"
    by (simp only: get_retention_metrics_def Let_def if_False fst_conv snd_conv)
  then have r1: "fst (get_retention_metrics df)
      = Fin (100 * (real (card {c \<in> customers_of df.
                                      1 < card (transaction_id ` rows_of df c)})
                         / real (card (customers_of df))))"
    by (simp only: repeat_column bool_mean_remdups [OF ne] cs fmul.simps mult.commute)
  from assms have "snd (snd (get_retention_metrics df))
      = fmul (bool_mean (map (\<lambda>d. 90 < d)
        (map (\<lambda>d. timedelta_whole_days (series_max (map transaction_datetime df) - d))
           (map (\<lambda>(c, rows). series_max (map transaction_datetime rows))
              (groupby customer_id df))))) (Fin 100)"
    by (simp only: get_retention_metrics_def Let_def if_False fst_conv snd_conv)
  then have r2: "snd (snd (get_retention_metrics df))
      = Fin (100 * (real (card {c \<in> customers_of df.
                    91 * 86400 \<le> Max (transaction_datetime ` set df)
                                    - Max (transaction_datetime ` rows_of df c)})
                         / real (card (customers_of df))))"
    by (simp only: churn_column bool_mean_remdups [OF ne] cs fmul.simps mult.commute)
  from r1 r2 show ?thesis by blast
qed

lemmas eval_retention = get_retention_metrics_def groupby_def nunique_def bool_mean_def
  pd_mean_def series_max_def series_min_def timedelta_whole_days_def visit_def Let_def

lemma retention_table_metrics:
  "get_retention_metrics retention_table = (Fin 50, Fin 0.45, Fin 50)"
  by (simp add: retention_table_def eval_retention)

theorem retention_metrics_value_witness:
  "retention_table \<noteq> []
   \<and> get_retention_metrics retention_table = (Fin 50, Fin 0.45, Fin 50)
   \<and> Fin 50 = Fin (100 * (real (card {c \<in> customers_of retention_table.
                    91 * 86400 \<le> Max (transaction_datetime ` set retention_table)
                                    - Max (transaction_datetime ` rows_of retention_table c)})
                         / real (card (customers_of retention_table))))"
proof -
  have ne: "retention_table \<noteq> []" by (simp add: retention_table_def)
  from retention_metrics_value [OF ne] retention_table_metrics
  have "Fin 50 = Fin (100 * (real (card {c \<in> customers_of retention_table.
                    91 * 86400 \<le> Max (transaction_datetime ` set retention_table)
                                    - Max (transaction_datetime ` rows_of retention_table c)})
                         / real (card (customers_of retention_table))))"
    by simp
  with ne retention_table_metrics show ?thesis by blast
qed

text \<open>
  The claim as stated fails when a customer's latest transaction precedes the latest
  one of the table by more than 90 days but less than 91: here by 90 days and one hour,
  and the churn risk is 0, although one customer of two is more than 90 days behind.
\<close>

theorem churn_more_than_90_days_counterexample:
  "get_retention_metrics ninety_days_table = (Fin 0, Fin (1 / 3), Fin 0)
   \<and> customer_id (ninety_days_table ! 0) = 1
   \<and> customer_id (ninety_days_table ! 1) = 2
   \<and> transaction_datetime (ninety_days_table ! 1) - transaction_datetime (ninety_days_table ! 0)
       = 90 * 86400 + 3600
   \<and> 90 * 86400
       < transaction_datetime (ninety_days_table ! 1) - transaction_datetime (ninety_days_table ! 0)"
  by (simp add: ninety_days_table_def eval_retention)

end
